theory Spec2Isabelle
  imports Complex_Main
begin

section \<open>Classifier-guided conditional trainer\<close>

text \<open>
  The development follows \<^verbatim>\<open>classifier_guided_conditional_trainer.py\<close>. The script is
  a flat sequence of statements over module-level variables; the variables it mutates are
  the fields of the record \<open>state\<close>, and every library or collaborator call
  (\<^verbatim>\<open>torch\<close>, the sampler object, the segmentation network, the two losses, the
  optimiser) is a field of the record \<open>env\<close>. Tensors are an arbitrary type \<open>'t\<close>,
  the optimiser's own state is \<open>'o\<close> and the state of the random generator is \<open>'g\<close>.
\<close>

subsection \<open>Data\<close>

text \<open>\<^verbatim>\<open>named_parameters()\<close> and \<^verbatim>\<open>initial_state\<close>: names with their tensors, in order.\<close>

type_synonym 't params = "(string \<times> 't) list"

text \<open>
  The exceptions the script itself can raise: the \<^verbatim>\<open>assert\<close> of the update checker
  (line 131), the lookup \<^verbatim>\<open>initial_state[name]\<close> (line 131), and the read of
  \<^verbatim>\<open>pred_y\<close> at line 136 when no guided step has assigned it.
\<close>

datatype error = AssertionError string | KeyError string | NameError string

text \<open>
  The calls the script makes, in program order. The field \<open>trace\<close> of the state records
  them; no operation reads it.
\<close>

datatype 't event =
    EvRandn 't
  | EvReverseIterate 't int
  | EvReverseSkip 't nat
  | EvReverseSample 't nat
  | EvClamp 't real real
  | EvZeroGrad
  | EvBackward
  | EvOptimizerStep
  | EvAutogradGrad 't
  | EvUpdateChecker

record ('t, 'o, 'g) env =
  randn :: "nat list \<Rightarrow> 'g \<Rightarrow> 't \<times> 'g"
  squeeze_long :: "'t \<Rightarrow> 't"
  reverse_iterate :: "'t params \<Rightarrow> 't \<Rightarrow> int \<Rightarrow> 'g \<Rightarrow> 't \<times> 'g"
  reverse_skip :: "'t params \<Rightarrow> 't \<Rightarrow> nat \<Rightarrow> 't"
  reverse_sample_typeII :: "'t params \<Rightarrow> 't \<Rightarrow> nat \<Rightarrow> 'g \<Rightarrow> ('t \<times> 't \<times> 't) \<times> 'g"
  clamp :: "'t \<Rightarrow> real \<Rightarrow> real \<Rightarrow> 't"
  seg_model :: "'t params \<Rightarrow> 't \<Rightarrow> 't"
  softmax :: "'t \<Rightarrow> 't"
  argmax :: "'t \<Rightarrow> 't"
  CE_loss :: "'t \<Rightarrow> 't \<Rightarrow> 't"
  DSC_loss :: "'t \<Rightarrow> 't \<Rightarrow> 't"
  tadd :: "'t \<Rightarrow> 't \<Rightarrow> 't"
  tmul :: "'t \<Rightarrow> 't \<Rightarrow> 't"
  smul :: "real \<Rightarrow> 't \<Rightarrow> 't"
  grad_params :: "('t params \<Rightarrow> 't) \<Rightarrow> 't params \<Rightarrow> 't params"
  grad_input :: "('t \<Rightarrow> 't) \<Rightarrow> 't \<Rightarrow> 't"
  optimizer_update :: "'o \<Rightarrow> 't params \<Rightarrow> 't params option \<Rightarrow> 'o \<times> 't params"
  allclose :: "'t \<Rightarrow> 't \<Rightarrow> bool"

text \<open>
  \<^item> \<open>randn shape g\<close>: \<^verbatim>\<open>torch.randn(shape)\<close>, drawing from the generator \<open>g\<close>.
  \<^item> \<open>squeeze_long\<close>: \<^verbatim>\<open>y.squeeze(1).to(torch.long)\<close>.
  \<^item> \<open>reverse_iterate\<close>, \<open>reverse_skip\<close>, \<open>reverse_sample_typeII\<close>: the three methods of
    \<^verbatim>\<open>sampler\<close> (built once from \<^verbatim>\<open>betas\<close>, line 51), applied to the parameters of
    \<^verbatim>\<open>dpm_model\<close>; the two that draw noise thread the generator.
  \<^item> \<open>seg_model p x\<close>: the forward pass of the segmentation network with parameters \<open>p\<close>.
  \<^item> \<open>grad_params f p\<close>: the gradient \<^verbatim>\<open>backward()\<close> computes for each named parameter,
    of the loss \<open>f\<close> as a function of the parameters, at \<open>p\<close>.
  \<^item> \<open>grad_input f x\<close>: \<^verbatim>\<open>torch.autograd.grad(f(x), x)[0]\<close>.
  \<^item> \<open>optimizer_update\<close>: \<^verbatim>\<open>optimizer.step()\<close> as a function of the optimiser's state,
    the parameters and their \<^verbatim>\<open>.grad\<close> buffers.
  \<^item> \<open>allclose\<close>: \<^verbatim>\<open>torch.allclose\<close> with its default tolerances.
\<close>

record config =
  T :: nat
  strength :: real
  n_epoch :: nat
  batch_size :: nat

text \<open>Lines 27-28, 45, 61 and 72 of the script.\<close>

definition script_config :: config where
  "script_config = \<lparr>T = 300, strength = 850, n_epoch = 10, batch_size = 10\<rparr>"

record ('t, 'o, 'g) state =
  x_t :: 't
  pred_y :: "'t option"
  seg_params :: "'t params"
  seg_grads :: "'t params option"
  opt_state :: 'o
  dpm_params :: "'t params"
  rng :: 'g
  pbar :: nat
  saved_images :: "(nat \<times> 't \<times> 't \<times> 't \<times> 't) list"
  saved_ckpt :: "'t params option"
  trace :: "'t event list"

text \<open>
  \<open>x_t\<close> is assigned at line 79 before any read. \<open>pred_y\<close> is \<open>None\<close> until a guided
  step has assigned it (lines 101 and 113). \<open>seg_grads\<close> are the \<^verbatim>\<open>.grad\<close> buffers of the segmentation network
  (\<open>None\<close> after \<^verbatim>\<open>zero_grad()\<close>). \<open>saved_images\<close> are the plots written by line 146,
  each under its \<^verbatim>\<open>step\<close> with the four tensors it is composed of; \<open>saved_ckpt\<close> is
  the file written by line 151.
\<close>

text \<open>An exception ends the run; it is returned with the state it leaves behind.\<close>

type_synonym ('t, 'o, 'g) result = "(error \<times> ('t, 'o, 'g) state) + ('t, 'o, 'g) state"

subsection \<open>One guided timestep (lines 91-131)\<close>

text \<open>Lines 100-104, and again lines 112-114: forward pass and combined loss.\<close>

definition seg_loss :: "('t, 'o, 'g) env \<Rightarrow> 't params \<Rightarrow> 't \<Rightarrow> 't \<Rightarrow> 't" where
  "seg_loss E p x y =
     (let pred = seg_model E p x;
          py = argmax E (softmax E pred)
      in tadd E (CE_loss E pred y) (DSC_loss E py y))"

definition seg_pred_y :: "('t, 'o, 'g) env \<Rightarrow> 't params \<Rightarrow> 't \<Rightarrow> 't" where
  "seg_pred_y E p x = argmax E (softmax E (seg_model E p x))"

text \<open>Line 91.\<close>

definition zero_grad :: "('t, 'o, 'g) state \<Rightarrow> ('t, 'o, 'g) state" where
  "zero_grad st = st\<lparr>seg_grads := None, trace := trace st @ [EvZeroGrad]\<rparr>"

text \<open>Lines 96-97: the clean-image estimate, clamped to [0, 1].\<close>

definition estimate_x0 :: "('t, 'o, 'g) env \<Rightarrow> ('t, 'o, 'g) state \<Rightarrow> nat \<Rightarrow> 't" where
  "estimate_x0 E st j = clamp E (reverse_skip E (dpm_params st) (x_t st) j) 0 1"

text \<open>Line 105: \<^verbatim>\<open>backward()\<close> adds the gradient to the buffers, or sets them when empty.\<close>

definition accumulate :: "('t, 'o, 'g) env \<Rightarrow> 't params option \<Rightarrow> 't params \<Rightarrow> 't params" where
  "accumulate E old g =
     (case old of None \<Rightarrow> g
      | Some b \<Rightarrow> map (\<lambda>((n, a), (m, d)). (n, tadd E a d)) (zip b g))"

definition backward :: "('t, 'o, 'g) env \<Rightarrow> ('t params \<Rightarrow> 't) \<Rightarrow> ('t, 'o, 'g) state \<Rightarrow> ('t, 'o, 'g) state" where
  "backward E f st =
     st\<lparr>seg_grads := Some (accumulate E (seg_grads st) (grad_params E f (seg_params st))),
        trace := trace st @ [EvBackward]\<rparr>"

text \<open>Line 106.\<close>

definition optimizer_step :: "('t, 'o, 'g) env \<Rightarrow> ('t, 'o, 'g) state \<Rightarrow> ('t, 'o, 'g) state" where
  "optimizer_step E st =
     (let (os, p) = optimizer_update E (opt_state st) (seg_params st) (seg_grads st)
      in st\<lparr>opt_state := os, seg_params := p, trace := trace st @ [EvOptimizerStep]\<rparr>)"

text \<open>Lines 91-106: the update of the segmentation network at timestep \<open>j\<close>.\<close>

definition segmentation_update ::
  "('t, 'o, 'g) env \<Rightarrow> 't \<Rightarrow> nat \<Rightarrow> ('t, 'o, 'g) state \<Rightarrow> ('t, 'o, 'g) state" where
  "segmentation_update E y j st =
     (let st1 = zero_grad st;
          x_0_t = estimate_x0 E st1 j;
          st2 = st1\<lparr>trace := trace st1 @
                  [EvReverseSkip (x_t st1) j,
                   EvClamp (reverse_skip E (dpm_params st1) (x_t st1) j) 0 1]\<rparr>;
          st3 = backward E (\<lambda>p. seg_loss E p x_0_t y) st2
      in optimizer_step E st3)"

text \<open>
  Lines 110-115: the gradient of \<^verbatim>\<open>- strength * loss\<close> with respect to \<^verbatim>\<open>x_in\<close>, a
  detached copy of \<^verbatim>\<open>x_0_t\<close>; the loss is that of the updated network.
\<close>

definition guidance_gradient ::
  "('t, 'o, 'g) env \<Rightarrow> config \<Rightarrow> 't params \<Rightarrow> 't \<Rightarrow> 't \<Rightarrow> 't" where
  "guidance_gradient E c p y x_0_t =
     (let x_in = x_0_t
      in grad_input E (\<lambda>x. smul E (- strength c) (seg_loss E p x y)) x_in)"

text \<open>Lines 110-123: guidance gradient, reverse transition, the new \<^verbatim>\<open>x_t\<close>.\<close>

definition trajectory_update ::
  "('t, 'o, 'g) env \<Rightarrow> config \<Rightarrow> 't \<Rightarrow> nat \<Rightarrow> 't \<Rightarrow> ('t, 'o, 'g) state \<Rightarrow> ('t, 'o, 'g) state" where
  "trajectory_update E c y j x_0_t st =
     (let gradient = guidance_gradient E c (seg_params st) y x_0_t;
          ((mean, std, epsilon), g) = reverse_sample_typeII E (dpm_params st) (x_t st) j (rng st);
          mean_shift = tadd E mean gradient
      in st\<lparr>x_t := tadd E mean_shift (tmul E std epsilon),
            pred_y := Some (seg_pred_y E (seg_params st) x_0_t),
            rng := g,
            trace := trace st @ [EvAutogradGrad x_0_t, EvReverseSample (x_t st) j]\<rparr>)"

text \<open>Lines 130-131: the first parameter that fails the check raises.\<close>

fun update_checker :: "('t, 'o, 'g) env \<Rightarrow> 't params \<Rightarrow> 't params \<Rightarrow> error option" where
  "update_checker E initial_state [] = None"
| "update_checker E initial_state ((name, param) # ps) =
     (case map_of initial_state name of
        None \<Rightarrow> Some (KeyError name)
      | Some p0 \<Rightarrow>
          if allclose E param p0 then Some (AssertionError name)
          else update_checker E initial_state ps)"

text \<open>Lines 91-131, the body of the loop over \<open>j\<close>.\<close>

definition guided_step ::
  "('t, 'o, 'g) env \<Rightarrow> config \<Rightarrow> 't params \<Rightarrow> 't \<Rightarrow> nat \<Rightarrow> ('t, 'o, 'g) state \<Rightarrow> ('t, 'o, 'g) result" where
  "guided_step E c initial_state y j st =
     (let x_0_t = estimate_x0 E st j;
          st1 = segmentation_update E y j st;
          st2 = trajectory_update E c y j x_0_t st1;
          st3 = st2\<lparr>pbar := pbar st2 + 1, trace := trace st2 @ [EvUpdateChecker]\<rparr>
      in case update_checker E initial_state (seg_params st3) of
           Some e \<Rightarrow> Inl (e, st3)
         | None \<Rightarrow> Inr st3)"

subsection \<open>One training example (lines 77-146)\<close>

text \<open>Line 90: \<^verbatim>\<open>for j in range(0, T)[::-1]\<close>, over the list of timesteps still to do.\<close>

fun guided_loop ::
  "('t, 'o, 'g) env \<Rightarrow> config \<Rightarrow> 't params \<Rightarrow> 't \<Rightarrow> nat list \<Rightarrow> ('t, 'o, 'g) state \<Rightarrow> ('t, 'o, 'g) result" where
  "guided_loop E c initial_state y [] st = Inr st"
| "guided_loop E c initial_state y (j # js) st =
     (case guided_step E c initial_state y j st of
        Inl e \<Rightarrow> Inl e
      | Inr st' \<Rightarrow> guided_loop E c initial_state y js st')"

text \<open>Lines 79-84: the noise \<^verbatim>\<open>x_t\<close> and the unconditional estimate made from it.\<close>

definition unconditional_pass ::
  "('t, 'o, 'g) env \<Rightarrow> config \<Rightarrow> ('t, 'o, 'g) state \<Rightarrow> 't \<times> ('t, 'o, 'g) state" where
  "unconditional_pass E c st =
     (let (noise, g1) = randn E [batch_size c, 1, 256, 256] (rng st);
          (x0, g2) = reverse_iterate E (dpm_params st) noise (int (T c) - 1) g1
      in (clamp E x0 (- 1) 1,
          st\<lparr>x_t := noise, rng := g2,
             trace := trace st @
               [EvRandn noise, EvReverseIterate noise (int (T c) - 1), EvClamp x0 (- 1) 1]\<rparr>))"

text \<open>
  Lines 77-146. Line 88 opens a new progress bar; lines 134-146 clamp the final \<^verbatim>\<open>x_t\<close>
  and save the plot. The plot is kept as the four tensors it is composed from; their
  rendering (\<^verbatim>\<open>tensor2pil\<close>, \<^verbatim>\<open>ImageRescale\<close>) and the calls that only report
  (\<^verbatim>\<open>set_description\<close>) or set the mode (\<^verbatim>\<open>seg_model.train()\<close>) are left out.
\<close>

definition train_example ::
  "('t, 'o, 'g) env \<Rightarrow> config \<Rightarrow> 't params \<Rightarrow> nat \<Rightarrow> 't \<times> 't \<Rightarrow> ('t, 'o, 'g) state \<Rightarrow> ('t, 'o, 'g) result" where
  "train_example E c initial_state step xy st =
     (let y = squeeze_long E (snd xy);
          (x_0_uncondition, st0) = unconditional_pass E c st;
          st1 = st0\<lparr>pbar := 0\<rparr>
      in case guided_loop E c initial_state y (rev [0 ..< T c]) st1 of
           Inl e \<Rightarrow> Inl e
         | Inr st2 \<Rightarrow>
             (let x_0_condition = clamp E (x_t st2) (- 1) 1;
                  st3 = st2\<lparr>trace := trace st2 @ [EvClamp (x_t st2) (- 1) 1]\<rparr>
              in case pred_y st3 of
                   None \<Rightarrow> Inl (NameError ''pred_y'', st3)
                 | Some py \<Rightarrow>
                     Inr (st3\<lparr>saved_images := saved_images st3 @
                             [(step, x_0_uncondition, x_0_condition, py, y)]\<rparr>)))"

subsection \<open>The training run (lines 57 and 74-151)\<close>

text \<open>Line 75: \<^verbatim>\<open>for step, (x, y) in enumerate(train_data)\<close>.\<close>

fun train_epoch ::
  "('t, 'o, 'g) env \<Rightarrow> config \<Rightarrow> 't params \<Rightarrow> nat \<Rightarrow> ('t \<times> 't) list \<Rightarrow> ('t, 'o, 'g) state \<Rightarrow> ('t, 'o, 'g) result" where
  "train_epoch E c initial_state step [] st = Inr st"
| "train_epoch E c initial_state step (xy # rest) st =
     (case train_example E c initial_state step xy st of
        Inl e \<Rightarrow> Inl e
      | Inr st' \<Rightarrow> train_epoch E c initial_state (Suc step) rest st')"

text \<open>Line 74 with lines 150-151: the epochs still to run, each ending with the save.\<close>

fun train_epochs ::
  "('t, 'o, 'g) env \<Rightarrow> config \<Rightarrow> 't params \<Rightarrow> ('t \<times> 't) list \<Rightarrow> nat \<Rightarrow> ('t, 'o, 'g) state \<Rightarrow> ('t, 'o, 'g) result" where
  "train_epochs E c initial_state train_data 0 st = Inr st"
| "train_epochs E c initial_state train_data (Suc n) st =
     (case train_epoch E c initial_state 0 train_data st of
        Inl e \<Rightarrow> Inl e
      | Inr st' \<Rightarrow>
          train_epochs E c initial_state train_data n (st'\<lparr>saved_ckpt := Some (seg_params st')\<rparr>))"

text \<open>
  Line 57 takes \<^verbatim>\<open>initial_state\<close> once, from the parameters as loaded, before the first
  epoch; the loops below it never assign it.
\<close>

definition train ::
  "('t, 'o, 'g) env \<Rightarrow> config \<Rightarrow> ('t \<times> 't) list \<Rightarrow> ('t, 'o, 'g) state \<Rightarrow> ('t, 'o, 'g) result" where
  "train E c train_data st =
     (let initial_state = seg_params st
      in train_epochs E c initial_state train_data (n_epoch c) st)"


section \<open>Vocabulary of the statements\<close>

subsection \<open>Results and traces\<close>

definition outcome :: "('t, 'o, 'g) result \<Rightarrow> ('t, 'o, 'g) state" where
  "outcome r = (case r of Inl (e, s) \<Rightarrow> s | Inr s \<Rightarrow> s)"

definition completed :: "('t, 'o, 'g) result \<Rightarrow> bool" where
  "completed r = (case r of Inl e \<Rightarrow> False | Inr s \<Rightarrow> True)"

definition new_events :: "('t, 'o, 'g) state \<Rightarrow> ('t, 'o, 'g) state \<Rightarrow> 't event list" where
  "new_events st st' = drop (length (trace st)) (trace st')"




fun clamp_calls :: "'t event list \<Rightarrow> ('t \<times> real \<times> real) list" where
  "clamp_calls [] = []"
| "clamp_calls (EvClamp x lo hi # es) = (x, lo, hi) # clamp_calls es"
| "clamp_calls (e # es) = clamp_calls es"


fun is_reverse_sample :: "'t event \<Rightarrow> bool" where
  "is_reverse_sample (EvReverseSample x j) = True"
| "is_reverse_sample e = False"

fun count_event :: "'t event \<Rightarrow> 't event list \<Rightarrow> nat" where
  "count_event a [] = 0"
| "count_event a (e # es) = (if e = a then 1 else 0) + count_event a es"


subsection \<open>One guided step, without its check\<close>

text \<open>The gradient that line 105 leaves in the buffers at timestep \<open>j\<close>.\<close>

definition step_grads :: "('t, 'o, 'g) env \<Rightarrow> 't \<Rightarrow> nat \<Rightarrow> ('t, 'o, 'g) state \<Rightarrow> 't params" where
  "step_grads E y j st =
     grad_params E (\<lambda>p. seg_loss E p (estimate_x0 E st j) y) (seg_params st)"

text \<open>The state a guided step leaves behind, whether or not the checker raises.\<close>

definition after_step ::
  "('t, 'o, 'g) env \<Rightarrow> config \<Rightarrow> 't \<Rightarrow> nat \<Rightarrow> ('t, 'o, 'g) state \<Rightarrow> ('t, 'o, 'g) state" where
  "after_step E c y j st =
     (let st2 = trajectory_update E c y j (estimate_x0 E st j) (segmentation_update E y j st)
      in st2\<lparr>pbar := pbar st2 + 1, trace := trace st2 @ [EvUpdateChecker]\<rparr>)"

text \<open>The calls of one guided step, in order, with their arguments.\<close>

definition step_events ::
  "('t, 'o, 'g) env \<Rightarrow> nat \<Rightarrow> ('t, 'o, 'g) state \<Rightarrow> 't event list" where
  "step_events E j st =
     [EvZeroGrad, EvReverseSkip (x_t st) j,
      EvClamp (reverse_skip E (dpm_params st) (x_t st) j) 0 1,
      EvBackward, EvOptimizerStep,
      EvAutogradGrad (estimate_x0 E st j), EvReverseSample (x_t st) j,
      EvUpdateChecker]"

text \<open>The states and the calls of the steps \<open>js\<close>, taken one after the other.\<close>

fun run_steps ::
  "('t, 'o, 'g) env \<Rightarrow> config \<Rightarrow> 't \<Rightarrow> nat list \<Rightarrow> ('t, 'o, 'g) state \<Rightarrow> ('t, 'o, 'g) state" where
  "run_steps E c y [] st = st"
| "run_steps E c y (j # js) st = run_steps E c y js (after_step E c y j st)"

fun loop_events ::
  "('t, 'o, 'g) env \<Rightarrow> config \<Rightarrow> 't \<Rightarrow> nat list \<Rightarrow> ('t, 'o, 'g) state \<Rightarrow> 't event list" where
  "loop_events E c y [] st = []"
| "loop_events E c y (j # js) st =
     step_events E j st @ loop_events E c y js (after_step E c y j st)"

subsection \<open>One training example\<close>

text \<open>The noise of line 79 and the unclamped result of line 83.\<close>

definition x_T :: "('t, 'o, 'g) env \<Rightarrow> config \<Rightarrow> ('t, 'o, 'g) state \<Rightarrow> 't" where
  "x_T E c st = fst (randn E [batch_size c, 1, 256, 256] (rng st))"

definition unconditional_x0 :: "('t, 'o, 'g) env \<Rightarrow> config \<Rightarrow> ('t, 'o, 'g) state \<Rightarrow> 't" where
  "unconditional_x0 E c st =
     fst (reverse_iterate E (dpm_params st) (x_T E c st) (int (T c) - 1)
            (snd (randn E [batch_size c, 1, 256, 256] (rng st))))"

text \<open>The state in which the guided loop starts (line 90).\<close>

definition start_state ::
  "('t, 'o, 'g) env \<Rightarrow> config \<Rightarrow> ('t, 'o, 'g) state \<Rightarrow> ('t, 'o, 'g) state" where
  "start_state E c st = (snd (unconditional_pass E c st))\<lparr>pbar := 0\<rparr>"

definition pass_events :: "('t, 'o, 'g) env \<Rightarrow> config \<Rightarrow> ('t, 'o, 'g) state \<Rightarrow> 't event list" where
  "pass_events E c st =
     [EvRandn (x_T E c st), EvReverseIterate (x_T E c st) (int (T c) - 1),
      EvClamp (unconditional_x0 E c st) (- 1) 1]"

text \<open>Lines 134-146 on the state \<open>s\<close> the guided loop has left.\<close>

definition finish ::
  "('t, 'o, 'g) env \<Rightarrow> nat \<Rightarrow> 't \<Rightarrow> 't \<Rightarrow> 't \<Rightarrow> ('t, 'o, 'g) state \<Rightarrow> ('t, 'o, 'g) state" where
  "finish E step u py y s =
     s\<lparr>trace := trace s @ [EvClamp (x_t s) (- 1) 1],
       saved_images := saved_images s @ [(step, u, clamp E (x_t s) (- 1) 1, py, y)]\<rparr>"

section \<open>The sampler's schedule and reverse transition\<close>

text \<open>
  Modelled from the spec: \<^verbatim>\<open>diffusion_solver.get_beta_schedule\<close> is imported by the script
  (lines 12 and 46) and is not among the sources. The spec gives it one policy, a linear
  interpolation of \<open>T\<close> scalars between \<^verbatim>\<open>beta_start\<close> and \<^verbatim>\<open>beta_end\<close>, and the error
  \<^verbatim>\<open>UnsupportedScheduleKind\<close> for any other policy name. The scalars are real numbers
  here; the rounding of floating-point arithmetic is not part of the model.
\<close>

datatype schedule_error = UnsupportedScheduleKind string

definition linspace :: "real \<Rightarrow> real \<Rightarrow> nat \<Rightarrow> real list" where
  "linspace a b n = map (\<lambda>i. a + (b - a) * real i / real (n - 1)) [0 ..< n]"

definition get_beta_schedule ::
  "string \<Rightarrow> real \<Rightarrow> real \<Rightarrow> nat \<Rightarrow> schedule_error + real list" where
  "get_beta_schedule beta_schedule beta_start beta_end num_diffusion_timesteps =
     (if beta_schedule = ''linear''
      then Inr (linspace beta_start beta_end num_diffusion_timesteps)
      else Inl (UnsupportedScheduleKind beta_schedule))"

text \<open>
  Modelled from the spec: the derived sequences of the schedule, kept by
  \<^verbatim>\<open>diffusion_solver.DiffusionSampler\<close> (not among the sources):
  \<open>alpha[t] = 1 - beta[t]\<close> and \<open>alpha_bar[t]\<close>, the product of \<open>alpha[s]\<close> over \<open>s \<le> t\<close>.
\<close>

definition alphas :: "real list \<Rightarrow> real list" where
  "alphas betas = map (\<lambda>b. 1 - b) betas"

definition alpha_bar :: "real list \<Rightarrow> real list" where
  "alpha_bar betas = map (\<lambda>t. prod_list (take (Suc t) (alphas betas))) [0 ..< length betas]"

text \<open>
  Modelled from the spec: \<^verbatim>\<open>DiffusionSampler.reverse_sample_typeII\<close> (not among the
  sources). It computes the mean and the standard deviation of the posterior of the
  reverse transition at \<open>t\<close> and draws one standard-normal sample of the shape of \<open>x\<close>,
  without combining them; at \<open>t = 0\<close> the standard deviation is 0. The spec gives no
  formula for the posterior, so its mean and its standard deviation at \<open>t > 0\<close> are
  parameters. The generator is the list of the samples still to be drawn.
\<close>

definition reverse_sample_typeII_spec ::
  "(real list \<Rightarrow> nat \<Rightarrow> real list \<Rightarrow> real list \<Rightarrow> real list) \<Rightarrow> (real list \<Rightarrow> nat \<Rightarrow> real) \<Rightarrow>
   real list \<Rightarrow> (real list \<Rightarrow> nat \<Rightarrow> real list) \<Rightarrow> real list \<Rightarrow> nat \<Rightarrow> real list \<Rightarrow>
   (real list \<times> real \<times> real list) \<times> real list" where
  "reverse_sample_typeII_spec posterior_mean posterior_std betas denoiser x t g =
     (let mean = posterior_mean betas t x (denoiser x t);
          std = (if t = 0 then 0 else posterior_std betas t);
          noise = take (length x) g
      in ((mean, std, noise), drop (length x) g))"

text \<open>
  The environment in which the sampler's \<open>reverse_sample_typeII\<close> is the model above, with
  its standard deviation broadcast to the shape of \<open>x\<close>, and in which the sum and the
  product of tensors are taken entry by entry; every other operation is that of \<open>E\<close>.
\<close>

definition spec_sampler_env ::
  "(real list \<Rightarrow> nat \<Rightarrow> real list \<Rightarrow> real list \<Rightarrow> real list) \<Rightarrow> (real list \<Rightarrow> nat \<Rightarrow> real) \<Rightarrow>
   real list \<Rightarrow> (real list params \<Rightarrow> real list \<Rightarrow> nat \<Rightarrow> real list) \<Rightarrow>
   (real list, 'o, real list) env \<Rightarrow> (real list, 'o, real list) env" where
  "spec_sampler_env posterior_mean posterior_std betas denoiser E =
     E\<lparr>reverse_sample_typeII := (\<lambda>d x t g.
          case reverse_sample_typeII_spec posterior_mean posterior_std betas (denoiser d) x t g of
            ((mean, std, noise), g') \<Rightarrow> ((mean, replicate (length x) std, noise), g')),
       tadd := map2 (+),
       tmul := map2 (*)\<rparr>"

section \<open>A one-pixel instance\<close>

text \<open>
  A concrete environment on which the script can be run by hand. A tensor is one entry,
  a real number or not-a-number. The denoiser and the segmentation network each have one
  weight \<open>w\<close> and multiply by it; the losses are a squared error and a Dice term without
  smoothing (0/0 on two empty masks); gradients are central differences; the optimiser is
  gradient descent; the generator is the list of the samples still to be drawn.
\<close>

datatype px = Val real | NaN

fun px_add :: "px \<Rightarrow> px \<Rightarrow> px" where
  "px_add (Val a) (Val b) = Val (a + b)"
| "px_add a b = NaN"

fun px_sub :: "px \<Rightarrow> px \<Rightarrow> px" where
  "px_sub (Val a) (Val b) = Val (a - b)"
| "px_sub a b = NaN"

fun px_mul :: "px \<Rightarrow> px \<Rightarrow> px" where
  "px_mul (Val a) (Val b) = Val (a * b)"
| "px_mul a b = NaN"

fun px_div :: "px \<Rightarrow> px \<Rightarrow> px" where
  "px_div (Val a) (Val b) = (if b = 0 then NaN else Val (a / b))"
| "px_div a b = NaN"

fun px_clamp :: "px \<Rightarrow> real \<Rightarrow> real \<Rightarrow> px" where
  "px_clamp (Val a) lo hi = Val (min (max a lo) hi)"
| "px_clamp NaN lo hi = NaN"

text \<open>\<^verbatim>\<open>torch.allclose\<close> with \<^verbatim>\<open>rtol=1e-05\<close>, \<^verbatim>\<open>atol=1e-08\<close>; not-a-number is close to nothing.\<close>

fun px_allclose :: "px \<Rightarrow> px \<Rightarrow> bool" where
  "px_allclose (Val a) (Val b) = (\<bar>a - b\<bar> \<le> 1 / 100000000 + 1 / 100000 * \<bar>b\<bar>)"
| "px_allclose a b = False"

definition weight :: "px params \<Rightarrow> px" where
  "weight p = (case map_of p ''w'' of Some v \<Rightarrow> v | None \<Rightarrow> Val 1)"

definition draw :: "real list \<Rightarrow> px \<times> real list" where
  "draw g = (case g of [] \<Rightarrow> (Val 0, []) | r # rs \<Rightarrow> (Val r, rs))"

definition shift :: "string \<Rightarrow> real \<Rightarrow> px params \<Rightarrow> px params" where
  "shift n h p = map (\<lambda>(m, v). if m = n then (m, px_add v (Val h)) else (m, v)) p"

definition central :: "(px params \<Rightarrow> px) \<Rightarrow> px params \<Rightarrow> px params" where
  "central f p =
     map (\<lambda>(n, v). (n, px_mul (Val (1 / 2)) (px_sub (f (shift n 1 p)) (f (shift n (- 1) p))))) p"

definition descend :: "real \<Rightarrow> nat \<Rightarrow> px params \<Rightarrow> px params option \<Rightarrow> nat \<times> px params" where
  "descend lr k p g =
     (Suc k, case g of None \<Rightarrow> p
             | Some d \<Rightarrow> map (\<lambda>((n, v), (m, u)). (n, px_sub v (px_mul (Val lr) u))) (zip p d))"

definition pixel_env :: "(px, nat, real list) env" where
  "pixel_env =
     \<lparr>randn = (\<lambda>shape g. draw g),
      squeeze_long = (\<lambda>y. y),
      reverse_iterate = (\<lambda>d x t g. (px_mul (weight d) x, g)),
      reverse_skip = (\<lambda>d x j. px_mul (weight d) x),
      reverse_sample_typeII = (\<lambda>d x j g.
         ((px_mul (weight d) x, (if j = 0 then Val 0 else Val 1), fst (draw g)), snd (draw g))),
      clamp = px_clamp,
      seg_model = (\<lambda>p x. px_mul (weight p) x),
      softmax = (\<lambda>x. x),
      argmax = (\<lambda>x. x),
      CE_loss = (\<lambda>pred y. px_mul (px_sub pred y) (px_sub pred y)),
      DSC_loss = (\<lambda>py y. px_sub (Val 1) (px_div (px_mul (Val 2) (px_mul py y)) (px_add py y))),
      tadd = px_add,
      tmul = px_mul,
      smul = (\<lambda>r x. px_mul (Val r) x),
      grad_params = central,
      grad_input = (\<lambda>f x. px_sub (f (px_add x (Val (1 / 2)))) (f (px_sub x (Val (1 / 2))))),
      optimizer_update = descend 1,
      allclose = px_allclose\<rparr>"

text \<open>The state after loading: segmentation weight \<open>w\<close>, denoiser weight 1, samples \<open>g\<close>.\<close>

definition pixel_state :: "px \<Rightarrow> real list \<Rightarrow> (px, nat, real list) state" where
  "pixel_state w g =
     \<lparr>x_t = Val 0, pred_y = None, seg_params = [(''w'', w)], seg_grads = None, opt_state = 0,
      dpm_params = [(''w'', Val 1)], rng = g, pbar = 0, saved_images = [], saved_ckpt = None,
      trace = []\<rparr>"

definition demo_config :: config where
  "demo_config = \<lparr>T = 2, strength = 2, n_epoch = 1, batch_size = 1\<rparr>"

definition one_step_config :: config where
  "one_step_config = \<lparr>T = 1, strength = 2, n_epoch = 1, batch_size = 1\<rparr>"

text \<open>One example with label 1 and two guided steps.\<close>

definition demo_state :: "(px, nat, real list) state" where
  "demo_state = pixel_state (Val 1) [1, 6, 0]"

definition demo_run :: "(px, nat, real list) result" where
  "demo_run = train_example pixel_env demo_config [(''w'', Val 1)] 0 (Val 0, Val 1) demo_state"

text \<open>Two examples with label 1; the noise of the second gives a black estimate.\<close>

definition stale_state :: "(px, nat, real list) state" where
  "stale_state = pixel_state (Val 1) [1, 0, - 1, 0]"

text \<open>The first guided step of an example whose noise gives a black estimate.\<close>

definition dark_state :: "(px, nat, real list) state" where
  "dark_state = start_state pixel_env one_step_config (pixel_state (Val 1) [- 1, 0])"

section \<open>Properties of one guided timestep\<close>

subsection \<open>What each phase writes\<close>

lemma segmentation_update_grads:
  "seg_grads (segmentation_update E y j st) = Some (step_grads E y j st)"
  by (simp add: segmentation_update_def optimizer_step_def backward_def zero_grad_def
      accumulate_def step_grads_def estimate_x0_def Let_def split: prod.splits)

lemma segmentation_update_params:
  "(opt_state (segmentation_update E y j st), seg_params (segmentation_update E y j st)) =
     optimizer_update E (opt_state st) (seg_params st) (Some (step_grads E y j st))"
  by (simp add: segmentation_update_def optimizer_step_def backward_def zero_grad_def
      accumulate_def step_grads_def estimate_x0_def Let_def split: prod.splits)

lemma segmentation_update_frame:
  "x_t (segmentation_update E y j st) = x_t st"
  "pred_y (segmentation_update E y j st) = pred_y st"
  "dpm_params (segmentation_update E y j st) = dpm_params st"
  "rng (segmentation_update E y j st) = rng st"
  "pbar (segmentation_update E y j st) = pbar st"
  "saved_images (segmentation_update E y j st) = saved_images st"
  "saved_ckpt (segmentation_update E y j st) = saved_ckpt st"
  by (simp_all add: segmentation_update_def optimizer_step_def backward_def zero_grad_def
      Let_def split: prod.splits)

lemma segmentation_update_trace:
  "trace (segmentation_update E y j st) =
     trace st @ [EvZeroGrad, EvReverseSkip (x_t st) j,
                 EvClamp (reverse_skip E (dpm_params st) (x_t st) j) 0 1,
                 EvBackward, EvOptimizerStep]"
  by (simp add: segmentation_update_def optimizer_step_def backward_def zero_grad_def
      Let_def split: prod.splits)

lemma trajectory_update_frame:
  "seg_params (trajectory_update E c y j x0 st) = seg_params st"
  "seg_grads (trajectory_update E c y j x0 st) = seg_grads st"
  "opt_state (trajectory_update E c y j x0 st) = opt_state st"
  "dpm_params (trajectory_update E c y j x0 st) = dpm_params st"
  "pbar (trajectory_update E c y j x0 st) = pbar st"
  "saved_images (trajectory_update E c y j x0 st) = saved_images st"
  "saved_ckpt (trajectory_update E c y j x0 st) = saved_ckpt st"
  by (simp_all add: trajectory_update_def Let_def split: prod.splits)

lemma trajectory_update_x_t:
  "x_t (trajectory_update E c y j x0 st) =
     (let gradient = guidance_gradient E c (seg_params st) y x0;
          r = fst (reverse_sample_typeII E (dpm_params st) (x_t st) j (rng st))
      in tadd E (tadd E (fst r) gradient) (tmul E (fst (snd r)) (snd (snd r))))"
  by (simp add: trajectory_update_def Let_def split: prod.splits)

lemma trajectory_update_rng:
  "rng (trajectory_update E c y j x0 st) =
     snd (reverse_sample_typeII E (dpm_params st) (x_t st) j (rng st))"
  by (simp add: trajectory_update_def Let_def split: prod.splits)

lemma trajectory_update_trace:
  "trace (trajectory_update E c y j x0 st) =
     trace st @ [EvAutogradGrad x0, EvReverseSample (x_t st) j]"
  by (simp add: trajectory_update_def Let_def split: prod.splits)

subsection \<open>The step as a whole\<close>

lemma guided_step_cases:
  "guided_step E c init y j st =
     (case update_checker E init (seg_params (after_step E c y j st)) of
        Some e \<Rightarrow> Inl (e, after_step E c y j st)
      | None \<Rightarrow> Inr (after_step E c y j st))"
  by (simp add: guided_step_def after_step_def Let_def split: option.splits)

lemma outcome_guided_step: "outcome (guided_step E c init y j st) = after_step E c y j st"
  by (simp add: guided_step_cases outcome_def split: option.splits)

lemma guided_step_Inr:
  "guided_step E c init y j st = Inr st' \<Longrightarrow>
     st' = after_step E c y j st \<and> update_checker E init (seg_params st') = None"
  by (auto simp: guided_step_cases split: option.splits)

lemma guided_step_Inl:
  "guided_step E c init y j st = Inl (e, st') \<Longrightarrow>
     st' = after_step E c y j st \<and> update_checker E init (seg_params st') = Some e"
  by (auto simp: guided_step_cases split: option.splits)

lemma after_step_x_t:
  "x_t (after_step E c y j st) =
     (let p = seg_params (segmentation_update E y j st);
          gradient = guidance_gradient E c p y (estimate_x0 E st j);
          r = fst (reverse_sample_typeII E (dpm_params st) (x_t st) j (rng st))
      in tadd E (tadd E (fst r) gradient) (tmul E (fst (snd r)) (snd (snd r))))"
  by (simp add: after_step_def Let_def trajectory_update_x_t segmentation_update_frame)

lemma after_step_params:
  "(opt_state (after_step E c y j st), seg_params (after_step E c y j st)) =
     optimizer_update E (opt_state st) (seg_params st) (Some (step_grads E y j st))"
  using segmentation_update_params [of E y j st]
  by (simp add: after_step_def Let_def trajectory_update_frame)

lemma after_step_grads:
  "seg_grads (after_step E c y j st) = Some (step_grads E y j st)"
  by (simp add: after_step_def Let_def trajectory_update_frame segmentation_update_grads)

lemma after_step_frame:
  "dpm_params (after_step E c y j st) = dpm_params st"
  "saved_images (after_step E c y j st) = saved_images st"
  "saved_ckpt (after_step E c y j st) = saved_ckpt st"
  "pbar (after_step E c y j st) = Suc (pbar st)"
  by (simp_all add: after_step_def Let_def trajectory_update_frame segmentation_update_frame)

lemma after_step_rng:
  "rng (after_step E c y j st) =
     snd (reverse_sample_typeII E (dpm_params st) (x_t st) j (rng st))"
  by (simp add: after_step_def Let_def trajectory_update_rng segmentation_update_frame)

lemma after_step_trace:
  "trace (after_step E c y j st) = trace st @ step_events E j st"
  by (simp add: after_step_def Let_def trajectory_update_trace segmentation_update_trace
      segmentation_update_frame step_events_def)

lemma after_step_ignores_grads:
  "after_step E c y j (st\<lparr>seg_grads := b\<rparr>) = after_step E c y j st"
  by (simp add: after_step_def trajectory_update_def segmentation_update_def
      guidance_gradient_def optimizer_step_def backward_def accumulate_def zero_grad_def
      estimate_x0_def Let_def split: prod.splits)

lemma new_events_append: "trace st' = trace st @ es \<Longrightarrow> new_events st st' = es"
  by (simp add: new_events_def)

lemma new_events_after_step: "new_events st (after_step E c y j st) = step_events E j st"
  by (simp add: new_events_def after_step_trace)

subsection \<open>The update checker\<close>

lemma update_checker_None:
  "update_checker E init ps = None \<longleftrightarrow>
     (\<forall>(n, p) \<in> set ps. \<exists>p0. map_of init n = Some p0 \<and> \<not> allclose E p p0)"
proof (induction ps)
  case Nil
  then show ?case by simp
next
  case (Cons a ps)
  obtain n p where a: "a = (n, p)" by (cases a)
  show ?case
  proof (cases "map_of init n")
    case None
    then show ?thesis by (simp add: a)
  next
    case (Some p0)
    then show ?thesis using Cons.IH by (simp add: a)
  qed
qed

lemma update_checker_Some:
  "update_checker E init ps = Some e \<Longrightarrow>
     \<exists>(n, p) \<in> set ps.
        (e = KeyError n \<and> map_of init n = None) \<or>
        (e = AssertionError n \<and> (\<exists>p0. map_of init n = Some p0 \<and> allclose E p p0))"
proof (induction ps)
  case Nil
  then show ?case by simp
next
  case (Cons a ps)
  obtain n p where a: "a = (n, p)" by (cases a)
  show ?case
  proof (cases "map_of init n")
    case None
    with Cons.prems show ?thesis by (simp add: a)
  next
    case (Some p0)
    show ?thesis
    proof (cases "allclose E p p0")
      case True
      with Some Cons.prems show ?thesis by (simp add: a)
    next
      case False
      with Some Cons.prems have "update_checker E init ps = Some e" by (simp add: a)
      from Cons.IH [OF this] show ?thesis by auto
    qed
  qed
qed

section \<open>Properties of the guided loop\<close>

lemma run_steps_trace:
  "trace (run_steps E c y js st) = trace st @ loop_events E c y js st"
  by (induction js arbitrary: st) (simp_all add: after_step_trace)

lemma run_steps_frame:
  "dpm_params (run_steps E c y js st) = dpm_params st"
  "saved_images (run_steps E c y js st) = saved_images st"
  "saved_ckpt (run_steps E c y js st) = saved_ckpt st"
  "pbar (run_steps E c y js st) = pbar st + length js"
  by (induction js arbitrary: st) (simp_all add: after_step_frame)

lemma guided_loop_Inr:
  "guided_loop E c init y js st = Inr st' \<Longrightarrow> st' = run_steps E c y js st"
proof (induction js arbitrary: st)
  case Nil
  then show ?case by simp
next
  case (Cons j js)
  then show ?case
    by (auto simp: guided_step_cases split: option.splits sum.splits)
qed

lemma guided_loop_checked:
  "guided_loop E c init y js st = Inr st' \<Longrightarrow> k < length js \<Longrightarrow>
     update_checker E init (seg_params (run_steps E c y (take (Suc k) js) st)) = None"
proof (induction js arbitrary: st k)
  case Nil
  then show ?case by simp
next
  case (Cons j js)
  from Cons.prems(1) have ok: "update_checker E init (seg_params (after_step E c y j st)) = None"
    and rest: "guided_loop E c init y js (after_step E c y j st) = Inr st'"
    by (auto simp: guided_step_cases split: option.splits sum.splits)
  show ?case
  proof (cases k)
    case 0
    with ok show ?thesis by simp
  next
    case (Suc m)
    with Cons.prems(2) have "m < length js" by simp
    from Cons.IH [OF rest this] Suc show ?thesis by simp
  qed
qed

lemma guided_loop_Inl:
  "guided_loop E c init y js st = Inl (e, st') \<Longrightarrow>
     \<exists>k < length js. st' = run_steps E c y (take (Suc k) js) st \<and>
        update_checker E init (seg_params st') = Some e"
proof (induction js arbitrary: st)
  case Nil
  then show ?case by simp
next
  case (Cons j js)
  show ?case
  proof (cases "update_checker E init (seg_params (after_step E c y j st))")
    case None
    with Cons.prems have "guided_loop E c init y js (after_step E c y j st) = Inl (e, st')"
      by (simp add: guided_step_cases)
    from Cons.IH [OF this] obtain k where "k < length js"
      "st' = run_steps E c y (take (Suc k) js) (after_step E c y j st)"
      "update_checker E init (seg_params st') = Some e" by blast
    then have "Suc k < length (j # js) \<and> st' = run_steps E c y (take (Suc (Suc k)) (j # js)) st
        \<and> update_checker E init (seg_params st') = Some e" by simp
    then show ?thesis by blast
  next
    case (Some e')
    with Cons.prems have "e' = e" "st' = after_step E c y j st"
      by (simp_all add: guided_step_cases)
    with Some have "0 < length (j # js) \<and> st' = run_steps E c y (take (Suc 0) (j # js)) st
        \<and> update_checker E init (seg_params st') = Some e" by simp
    then show ?thesis by blast
  qed
qed

lemma run_steps_append:
  "run_steps E c y (js @ ks) st = run_steps E c y ks (run_steps E c y js st)"
  by (induction js arbitrary: st) simp_all

lemma run_steps_Suc:
  "k < length js \<Longrightarrow>
     run_steps E c y (take (Suc k) js) st =
       after_step E c y (js ! k) (run_steps E c y (take k js) st)"
  by (simp add: take_Suc_conv_app_nth run_steps_append)

lemma after_step_pred_y:
  "pred_y (after_step E c y j st) =
     Some (seg_pred_y E (seg_params (segmentation_update E y j st)) (estimate_x0 E st j))"
  by (simp add: after_step_def Let_def trajectory_update_def split: prod.splits)

text \<open>What one guided step computes, written out on the state \<open>s\<close> it starts from.\<close>

lemma after_step_explicit:
  "(let x_0_t = clamp E (reverse_skip E (dpm_params s) (x_t s) j) 0 1;
        g1 = grad_params E (\<lambda>p. seg_loss E p x_0_t y) (seg_params s);
        p' = snd (optimizer_update E (opt_state s) (seg_params s) (Some g1));
        gradient = grad_input E (\<lambda>x. smul E (- strength c) (seg_loss E p' x y)) x_0_t;
        ((mean, std, noise), g') = reverse_sample_typeII E (dpm_params s) (x_t s) j (rng s)
    in seg_grads (after_step E c y j s) = Some g1
       \<and> seg_params (after_step E c y j s) = p'
       \<and> pred_y (after_step E c y j s) = Some (argmax E (softmax E (seg_model E p' x_0_t)))
       \<and> x_t (after_step E c y j s) = tadd E (tadd E mean gradient) (tmul E std noise))"
proof -
  have p: "seg_params (segmentation_update E y j s) =
      snd (optimizer_update E (opt_state s) (seg_params s) (Some (step_grads E y j s)))"
    using segmentation_update_params [of E y j s] by (metis snd_conv)
  have q: "seg_params (after_step E c y j s) =
      snd (optimizer_update E (opt_state s) (seg_params s) (Some (step_grads E y j s)))"
    using after_step_params [of E c y j s] by (metis snd_conv)
  show ?thesis
    by (simp add: Let_def after_step_grads after_step_pred_y after_step_x_t p q step_grads_def
        estimate_x0_def guidance_gradient_def seg_pred_y_def split: prod.splits)
qed


subsection \<open>Projections of the trace\<close>



lemma clamp_calls_append: "clamp_calls (es @ fs) = clamp_calls es @ clamp_calls fs"
  by (induction es rule: clamp_calls.induct) simp_all





lemma clamp_bounds_loop:
  "map snd (clamp_calls (loop_events E c y js st)) = replicate (length js) (0, 1)"
  by (induction js arbitrary: st) (simp_all add: clamp_calls_append step_events_def)

lemma clamp_calls_loop:
  "clamp_calls (loop_events E c y js st) =
     map (\<lambda>k. (reverse_skip E (dpm_params st) (x_t (run_steps E c y (take k js) st)) (js ! k), 0, 1))
       [0 ..< length js]"
proof (induction js arbitrary: st)
  case Nil
  then show ?case by simp
next
  case (Cons j js)
  have "clamp_calls (step_events E j st) = [(reverse_skip E (dpm_params st) (x_t st) j, 0, 1)]"
    by (simp add: step_events_def)
  then show ?case
    by (simp add: clamp_calls_append Cons.IH after_step_frame map_upt_Suc del: upt_Suc)
qed

section \<open>Properties of one training example\<close>

lemma unconditional_pass_fst:
  "fst (unconditional_pass E c st) = clamp E (unconditional_x0 E c st) (- 1) 1"
  by (simp add: unconditional_pass_def unconditional_x0_def x_T_def Let_def split: prod.splits)

lemma start_state_fields:
  "x_t (start_state E c st) = x_T E c st"
  "seg_params (start_state E c st) = seg_params st"
  "seg_grads (start_state E c st) = seg_grads st"
  "opt_state (start_state E c st) = opt_state st"
  "dpm_params (start_state E c st) = dpm_params st"
  "pred_y (start_state E c st) = pred_y st"
  "saved_images (start_state E c st) = saved_images st"
  "saved_ckpt (start_state E c st) = saved_ckpt st"
  "pbar (start_state E c st) = 0"
  by (simp_all add: start_state_def unconditional_pass_def x_T_def Let_def split: prod.splits)

lemma start_state_trace:
  "trace (start_state E c st) = trace st @ pass_events E c st"
  by (simp add: start_state_def unconditional_pass_def pass_events_def unconditional_x0_def
      x_T_def Let_def split: prod.splits)

lemma train_example_Inr:
  assumes "train_example E c init step xy st = Inr st'"
  shows "\<exists>py. guided_loop E c init (squeeze_long E (snd xy)) (rev [0 ..< T c]) (start_state E c st)
            = Inr (run_steps E c (squeeze_long E (snd xy)) (rev [0 ..< T c]) (start_state E c st))
        \<and> st' = finish E step (clamp E (unconditional_x0 E c st) (- 1) 1) py (squeeze_long E (snd xy))
            (run_steps E c (squeeze_long E (snd xy)) (rev [0 ..< T c]) (start_state E c st))"
proof -
  let ?y = "squeeze_long E (snd xy)"
  let ?s1 = "start_state E c st"
  obtain u s0 where up: "unconditional_pass E c st = (u, s0)" by (cases "unconditional_pass E c st")
  then have s1: "s0\<lparr>pbar := 0\<rparr> = ?s1" and u: "u = clamp E (unconditional_x0 E c st) (- 1) 1"
    using unconditional_pass_fst [of E c st] by (simp_all add: start_state_def)
  from assms up s1 obtain s2 where loop: "guided_loop E c init ?y (rev [0 ..< T c]) ?s1 = Inr s2"
    by (auto simp: train_example_def Let_def split: sum.splits)
  then have s2: "s2 = run_steps E c ?y (rev [0 ..< T c]) ?s1" by (rule guided_loop_Inr)
  from assms up s1 loop obtain py where "st' = finish E step u py ?y s2"
    by (auto simp: train_example_def Let_def finish_def split: option.splits)
  with loop s2 u show ?thesis by auto
qed

lemma train_example_Inl:
  assumes "train_example E c init step xy st = Inl (e, st')"
  shows "\<exists>k \<le> T c. \<exists>rest.
           trace st' = trace st @ pass_events E c st @
             loop_events E c (squeeze_long E (snd xy)) (take k (rev [0 ..< T c])) (start_state E c st)
             @ rest
           \<and> (rest = [] \<or> rest = [EvClamp (x_t st') (- 1) 1])
           \<and> dpm_params st' = dpm_params st \<and> (0 < T c \<longrightarrow> 0 < k)"
proof -
  let ?y = "squeeze_long E (snd xy)"
  let ?s1 = "start_state E c st"
  let ?js = "rev [0 ..< T c]"
  obtain u s0 where up: "unconditional_pass E c st = (u, s0)" by (cases "unconditional_pass E c st")
  then have s1: "s0\<lparr>pbar := 0\<rparr> = ?s1" by (simp add: start_state_def)
  show ?thesis
  proof (cases "guided_loop E c init ?y ?js ?s1")
    case (Inl a)
    with assms up s1 have "guided_loop E c init ?y ?js ?s1 = Inl (e, st')"
      by (simp add: train_example_def Let_def)
    from guided_loop_Inl [OF this] obtain k where k: "k < length ?js"
      "st' = run_steps E c ?y (take (Suc k) ?js) ?s1" by blast
    then have "trace st' = trace st @ pass_events E c st @
        loop_events E c ?y (take (Suc k) ?js) ?s1 @ []"
      by (simp add: run_steps_trace start_state_trace)
    moreover have "dpm_params st' = dpm_params st"
      using k by (simp add: run_steps_frame start_state_fields)
    moreover have "Suc k \<le> T c" using k by simp
    ultimately show ?thesis by (metis zero_less_Suc)
  next
    case (Inr s2)
    then have s2: "s2 = run_steps E c ?y ?js ?s1" by (rule guided_loop_Inr)
    from assms up s1 Inr have st': "st' = s2\<lparr>trace := trace s2 @ [EvClamp (x_t s2) (- 1) 1]\<rparr>"
      and "pred_y s2 = None"
      by (auto simp: train_example_def Let_def split: option.splits)
    have "trace st' = trace st @ pass_events E c st @
        loop_events E c ?y (take (T c) ?js) ?s1 @ [EvClamp (x_t s2) (- 1) 1]"
      using st' s2 by (simp add: run_steps_trace start_state_trace)
    moreover have "dpm_params st' = dpm_params st"
      using st' s2 by (simp add: run_steps_frame start_state_fields)
    moreover have "x_t st' = x_t s2" using st' by simp
    ultimately show ?thesis
      by (metis order_refl)
  qed
qed

lemma train_example_Inr_trace:
  assumes "train_example E c init step xy st = Inr st'"
  shows "trace st' = trace st @ pass_events E c st @
           loop_events E c (squeeze_long E (snd xy)) (rev [0 ..< T c]) (start_state E c st) @
           [EvClamp (x_t st') (- 1) 1]"
    and "x_t st' = x_t (run_steps E c (squeeze_long E (snd xy)) (rev [0 ..< T c]) (start_state E c st))"
    and "dpm_params st' = dpm_params st"
    and "pbar st' = T c"
    and "\<exists>py. last (saved_images st') =
           (step, clamp E (unconditional_x0 E c st) (- 1) 1, clamp E (x_t st') (- 1) 1, py,
            squeeze_long E (snd xy))"
  using train_example_Inr [OF assms]
  by (auto simp: finish_def run_steps_trace run_steps_frame start_state_trace start_state_fields)



lemma train_example_checked:
  assumes "train_example E c init step xy st = Inr st'" "0 < T c"
  shows "update_checker E init (seg_params st') = None"
proof -
  let ?y = "squeeze_long E (snd xy)"
  let ?js = "rev [0 ..< T c]"
  let ?s1 = "start_state E c st"
  from train_example_Inr [OF assms(1)] obtain py where
    loop: "guided_loop E c init ?y ?js ?s1 = Inr (run_steps E c ?y ?js ?s1)"
    and st': "st' = finish E step (clamp E (unconditional_x0 E c st) (- 1) 1) py ?y
        (run_steps E c ?y ?js ?s1)" by blast
  from assms(2) have "T c - 1 < length ?js" by simp
  from guided_loop_checked [OF loop this] assms(2)
  have "update_checker E init (seg_params (run_steps E c ?y ?js ?s1)) = None" by simp
  with st' show ?thesis by (simp add: finish_def)
qed

section \<open>Properties of the training run\<close>

lemma train_example_dpm:
  "dpm_params (outcome (train_example E c init step xy st)) = dpm_params st"
proof (cases "train_example E c init step xy st")
  case (Inl a)
  obtain e st' where "a = (e, st')" by (cases a)
  with Inl have r: "train_example E c init step xy st = Inl (e, st')" by simp
  from train_example_Inl [OF r] have "dpm_params st' = dpm_params st" by blast
  with r show ?thesis by (simp add: outcome_def)
next
  case (Inr st')
  from train_example_Inr_trace(3) [OF Inr] Inr show ?thesis by (simp add: outcome_def)
qed

lemma train_epoch_dpm:
  "dpm_params (outcome (train_epoch E c init step train_data st)) = dpm_params st"
proof (induction train_data arbitrary: step st)
  case Nil
  then show ?case by (simp add: outcome_def)
next
  case (Cons xy rest)
  show ?case
  proof (cases "train_example E c init step xy st")
    case (Inl a)
    then have "outcome (train_epoch E c init step (xy # rest) st) =
        outcome (train_example E c init step xy st)" by simp
    then show ?thesis by (simp add: train_example_dpm)
  next
    case (Inr st')
    then have "dpm_params st' = dpm_params st"
      using train_example_dpm [of E c init step xy st] by (simp add: outcome_def)
    with Inr Cons.IH [of "Suc step" st'] show ?thesis by simp
  qed
qed

lemma train_epochs_dpm:
  "dpm_params (outcome (train_epochs E c init train_data n st)) = dpm_params st"
proof (induction n arbitrary: st)
  case 0
  then show ?case by (simp add: outcome_def)
next
  case (Suc n)
  show ?case
  proof (cases "train_epoch E c init 0 train_data st")
    case (Inl a)
    then have "outcome (train_epochs E c init train_data (Suc n) st) =
        outcome (train_epoch E c init 0 train_data st)" by simp
    then show ?thesis by (simp add: train_epoch_dpm)
  next
    case (Inr st')
    then have "dpm_params st' = dpm_params st"
      using train_epoch_dpm [of E c init 0 train_data st] by (simp add: outcome_def)
    with Inr Suc.IH [of "st'\<lparr>saved_ckpt := Some (seg_params st')\<rparr>"] show ?thesis by simp
  qed
qed

lemma train_epoch_checked:
  "train_epoch E c init step train_data st = Inr st' \<Longrightarrow> train_data \<noteq> [] \<Longrightarrow> 0 < T c \<Longrightarrow>
     update_checker E init (seg_params st') = None"
proof (induction train_data arbitrary: step st)
  case Nil
  then show ?case by simp
next
  case (Cons xy rest)
  from Cons.prems(1) obtain s1 where ex: "train_example E c init step xy st = Inr s1"
    and more: "train_epoch E c init (Suc step) rest s1 = Inr st'"
    by (auto split: sum.splits)
  show ?case
  proof (cases rest)
    case Nil
    with more have "st' = s1" by simp
    with train_example_checked [OF ex Cons.prems(3)] show ?thesis by simp
  next
    case (Cons a as)
    then have "rest \<noteq> []" by simp
    from Cons.IH [OF more this \<open>0 < T c\<close>] show ?thesis .
  qed
qed

lemma train_epochs_checked:
  "train_epochs E c init train_data n st = Inr st' \<Longrightarrow> 0 < n \<Longrightarrow> train_data \<noteq> [] \<Longrightarrow>
     0 < T c \<Longrightarrow> update_checker E init (seg_params st') = None"
proof (induction n arbitrary: st)
  case 0
  then show ?case by simp
next
  case (Suc n)
  from Suc.prems(1) obtain s1 where ep: "train_epoch E c init 0 train_data st = Inr s1"
    and more: "train_epochs E c init train_data n (s1\<lparr>saved_ckpt := Some (seg_params s1)\<rparr>) = Inr st'"
    by (auto split: sum.splits)
  show ?case
  proof (cases n)
    case 0
    with more have "seg_params st' = seg_params s1" by auto
    with train_epoch_checked [OF ep Suc.prems(3,4)] show ?thesis by simp
  next
    case (Suc m)
    then have "0 < n" by simp
    from Suc.IH [OF more this Suc.prems(3,4)] show ?thesis .
  qed
qed

section \<open>Properties of the linear schedule\<close>

lemma linspace_nth:
  "i < n \<Longrightarrow> linspace a b n ! i = a + (b - a) * real i / real (n - 1)"
  by (simp add: linspace_def)

lemma fraction_bounds:
  assumes "i < n"
  shows "0 \<le> real i / real (n - 1)" and "real i / real (n - 1) \<le> 1"
proof -
  show "0 \<le> real i / real (n - 1)" by simp
  show "real i / real (n - 1) \<le> 1"
  proof (cases "n = 1")
    case True
    with assms show ?thesis by simp
  next
    case False
    with assms have "real i \<le> real (n - 1)" "0 < real (n - 1)" by simp_all
    then show ?thesis by (simp add: divide_le_eq_1)
  qed
qed

lemma linspace_bounds:
  assumes "a < b" "i < n"
  shows "a \<le> linspace a b n ! i" and "linspace a b n ! i \<le> b"
proof -
  have f: "0 \<le> real i / real (n - 1)" "real i / real (n - 1) \<le> 1"
    using fraction_bounds [OF assms(2)] by simp_all
  have eq: "linspace a b n ! i = a + (b - a) * (real i / real (n - 1))"
    using assms(2) by (simp add: linspace_nth)
  from assms(1) f(1) have "0 \<le> (b - a) * (real i / real (n - 1))" by simp
  with eq show "a \<le> linspace a b n ! i" by simp
  from assms(1) f(2) have "(b - a) * (real i / real (n - 1)) \<le> (b - a) * 1"
    by (intro mult_left_mono) simp_all
  with eq show "linspace a b n ! i \<le> b" by simp
qed

lemma linspace_mono:
  assumes "a < b" "i \<le> j" "j < n"
  shows "linspace a b n ! i \<le> linspace a b n ! j"
proof -
  from assms(2) have "real i / real (n - 1) \<le> real j / real (n - 1)"
    by (intro divide_right_mono) simp_all
  with assms(1) have "(b - a) * (real i / real (n - 1)) \<le> (b - a) * (real j / real (n - 1))"
    by (intro mult_left_mono) simp_all
  with assms(2,3) show ?thesis by (simp add: linspace_nth)
qed

lemma alpha_bar_0: "0 < length betas \<Longrightarrow> alpha_bar betas ! 0 = 1 - betas ! 0"
  by (cases betas) (simp_all add: alpha_bar_def alphas_def del: upt_Suc)

lemma alpha_bar_Suc:
  assumes "Suc t < length betas"
  shows "alpha_bar betas ! Suc t = alpha_bar betas ! t * (1 - betas ! Suc t)"
proof -
  from assms have "take (Suc (Suc t)) (alphas betas) =
      take (Suc t) (alphas betas) @ [alphas betas ! Suc t]"
    by (simp add: take_Suc_conv_app_nth alphas_def)
  moreover from assms have "alphas betas ! Suc t = 1 - betas ! Suc t"
    by (simp add: alphas_def)
  ultimately show ?thesis using assms by (simp add: alpha_bar_def)
qed

lemma alpha_bar_pos:
  assumes "\<forall>t < length betas. 0 < betas ! t \<and> betas ! t < 1"
  shows "t < length betas \<Longrightarrow> 0 < alpha_bar betas ! t"
proof (induction t)
  case 0
  with assms show ?case by (simp add: alpha_bar_0)
next
  case (Suc t)
  then have "0 < alpha_bar betas ! t" by simp
  moreover from assms Suc.prems have "0 < 1 - betas ! Suc t" by simp
  ultimately show ?case using Suc.prems by (simp add: alpha_bar_Suc)
qed

lemma alpha_bar_step:
  assumes "\<forall>t < length betas. 0 < betas ! t \<and> betas ! t < 1" "Suc t < length betas"
  shows "alpha_bar betas ! Suc t < alpha_bar betas ! t"
proof -
  from assms have p: "0 < alpha_bar betas ! t" by (simp add: alpha_bar_pos)
  from assms have "1 - betas ! Suc t < 1" by simp
  with p have "alpha_bar betas ! t * (1 - betas ! Suc t) < alpha_bar betas ! t * 1"
    by (intro mult_strict_left_mono) simp_all
  with assms(2) show ?thesis by (simp add: alpha_bar_Suc)
qed

lemma alpha_bar_decreasing:
  assumes "\<forall>t < length betas. 0 < betas ! t \<and> betas ! t < 1"
  shows "s < t \<Longrightarrow> t < length betas \<Longrightarrow> alpha_bar betas ! t < alpha_bar betas ! s"
proof (induction t)
  case 0
  then show ?case by simp
next
  case (Suc t)
  have step: "alpha_bar betas ! Suc t < alpha_bar betas ! t"
    using assms Suc.prems(2) by (rule alpha_bar_step)
  show ?case
  proof (cases "s = t")
    case True
    with step show ?thesis by simp
  next
    case False
    with Suc.prems have "s < t" "t < length betas" by simp_all
    then have "alpha_bar betas ! t < alpha_bar betas ! s" by (rule Suc.IH)
    with step show ?thesis by simp
  qed
qed

lemma map2_mult_zeros:
  "map2 (*) (replicate n (0 :: real)) ns = replicate (min n (length ns)) 0"
proof (induction n arbitrary: ns)
  case 0
  then show ?case by simp
next
  case (Suc n)
  then show ?case by (cases ns) simp_all
qed

lemma map2_add_zeros: "map2 (+) as (replicate m (0 :: real)) = take m as"
proof (induction as arbitrary: m)
  case Nil
  then show ?case by simp
next
  case (Cons a as)
  then show ?case by (cases m) simp_all
qed

section \<open>Running the one-pixel instance\<close>

lemmas toy_defs = pixel_env_def pixel_state_def weight_def draw_def shift_def central_def
  descend_def

lemmas step_defs = guided_step_def segmentation_update_def trajectory_update_def
  guidance_gradient_def optimizer_step_def backward_def accumulate_def zero_grad_def
  estimate_x0_def seg_loss_def seg_pred_y_def Let_def

lemmas start_defs = start_state_def unconditional_pass_def unconditional_x0_def x_T_def

lemma completed_outcome: "completed r \<Longrightarrow> r = Inr (outcome r)"
  by (cases r) (simp_all add: completed_def outcome_def)

lemma completed_Inr: "r = Inr s \<Longrightarrow> completed r"
  by (simp add: completed_def)

lemma guided_loop_step:
  "guided_step E c init y j st = Inr st' \<Longrightarrow>
     guided_loop E c init y js st' = r \<Longrightarrow> guided_loop E c init y (j # js) st = r"
  by simp

lemma train_example_run:
  "start_state E c st = s1 \<Longrightarrow>
   guided_loop E c init (squeeze_long E (snd xy)) (rev [0 ..< T c]) s1 = Inr s2 \<Longrightarrow>
   pred_y s2 = Some py \<Longrightarrow>
   train_example E c init step xy st =
     Inr (finish E step (clamp E (unconditional_x0 E c st) (- 1) 1) py (squeeze_long E (snd xy)) s2)"
  using unconditional_pass_fst [of E c st]
  by (auto simp: train_example_def start_state_def finish_def Let_def split: prod.splits)

lemma train_epoch_step:
  "train_example E c init step xy st = Inr st' \<Longrightarrow>
     train_epoch E c init (Suc step) rest st' = r \<Longrightarrow>
     train_epoch E c init step (xy # rest) st = r"
  by simp

text \<open>The operations of the instance, one by one.\<close>

lemma pixel_fields:
  "randn pixel_env = (\<lambda>shape g. draw g)"
  "squeeze_long pixel_env = (\<lambda>y. y)"
  "reverse_skip pixel_env = (\<lambda>d x j. px_mul (weight d) x)"
  "reverse_sample_typeII pixel_env = (\<lambda>d x j g.
         ((px_mul (weight d) x, (if j = 0 then Val 0 else Val 1), fst (draw g)), snd (draw g)))"
  "clamp pixel_env = px_clamp"
  "seg_model pixel_env = (\<lambda>p x. px_mul (weight p) x)"
  "softmax pixel_env = (\<lambda>x. x)"
  "argmax pixel_env = (\<lambda>x. x)"
  "CE_loss pixel_env = (\<lambda>pred y. px_mul (px_sub pred y) (px_sub pred y))"
  "DSC_loss pixel_env =
     (\<lambda>py y. px_sub (Val 1) (px_div (px_mul (Val 2) (px_mul py y)) (px_add py y)))"
  "tadd pixel_env = px_add"
  "tmul pixel_env = px_mul"
  "smul pixel_env = (\<lambda>r x. px_mul (Val r) x)"
  "grad_params pixel_env = central"
  "grad_input pixel_env =
     (\<lambda>f x. px_sub (f (px_add x (Val (1 / 2)))) (f (px_sub x (Val (1 / 2)))))"
  "optimizer_update pixel_env = descend 1"
  by (simp_all add: pixel_env_def)

lemma demo_T: "rev [0 ..< T demo_config] = [1, 0]"
  by (simp add: demo_config_def upt_rec)

lemma one_step_T: "rev [0 ..< T one_step_config] = [0]"
  by (simp add: one_step_config_def)

lemma demo_completed: "completed demo_run"
proof -
  have "\<exists>r. demo_run = Inr r"
    unfolding demo_run_def
    apply (rule exI)
    apply (rule train_example_run)
      apply (simp add: start_defs demo_state_def demo_config_def toy_defs)
     apply (simp only: demo_T)
     apply (rule guided_loop_step)
      apply (simp add: step_defs toy_defs demo_config_def)
     apply (rule guided_loop_step)
      apply (simp add: step_defs toy_defs demo_config_def)
     apply simp
    apply simp
    done
  then obtain r where "demo_run = Inr r" by blast
  then show ?thesis by (rule completed_Inr)
qed

lemma demo_run_Inr:
  "train_example pixel_env demo_config [(''w'', Val 1)] 0 (Val 0, Val 1) demo_state =
     Inr (outcome demo_run)"
  using completed_outcome [OF demo_completed] by (simp add: demo_run_def)

lemma stale_first_example:
  "\<exists>r. train_epoch pixel_env one_step_config [(''w'', Val 1)] 0 [(Val 0, Val 1)] stale_state
      = Inr r \<and> seg_params r = [(''w'', Val (5 / 3))]"
  apply (rule exI)
  apply (rule conjI)
   apply (rule train_epoch_step)
    apply (rule train_example_run)
      apply (simp add: start_defs stale_state_def one_step_config_def toy_defs)
     apply (simp only: one_step_T)
     apply (rule guided_loop_step)
      apply (simp add: step_defs toy_defs one_step_config_def)
     apply simp
    apply simp
   apply simp
  apply (simp add: finish_def)
  done

lemma stale_both_examples:
  "\<exists>r. train_epoch pixel_env one_step_config [(''w'', Val 1)] 0
      [(Val 0, Val 1), (Val 0, Val 1)] stale_state = Inr r \<and> seg_params r = [(''w'', Val (5 / 3))]"
  apply (rule exI)
  apply (rule conjI)
   apply (rule train_epoch_step)
    apply (rule train_example_run)
      apply (simp add: start_defs stale_state_def one_step_config_def toy_defs)
     apply (simp only: one_step_T)
     apply (rule guided_loop_step)
      apply (simp add: step_defs toy_defs one_step_config_def)
     apply simp
    apply simp
   apply (rule train_epoch_step)
    apply (rule train_example_run)
      apply (simp add: start_defs finish_def one_step_config_def toy_defs)
     apply (simp only: one_step_T)
     apply (rule guided_loop_step)
      apply (simp add: step_defs toy_defs one_step_config_def)
     apply simp
    apply simp
   apply simp
  apply (simp add: finish_def)
  done

lemma stale_train_one:
  "completed (train pixel_env one_step_config [(Val 0, Val 1)] stale_state)
   \<and> seg_params (outcome (train pixel_env one_step_config [(Val 0, Val 1)] stale_state)) =
       [(''w'', Val (5 / 3))]"
proof -
  have i: "seg_params stale_state = [(''w'', Val 1)]"
    by (simp add: stale_state_def pixel_state_def)
  have n: "n_epoch one_step_config = Suc 0" by (simp add: one_step_config_def)
  from stale_first_example obtain r where
    "train_epoch pixel_env one_step_config [(''w'', Val 1)] 0 [(Val 0, Val 1)] stale_state = Inr r"
    "seg_params r = [(''w'', Val (5 / 3))]" by blast
  with i show ?thesis by (simp add: train_def n completed_def outcome_def)
qed

lemma stale_train_two:
  "completed (train pixel_env one_step_config [(Val 0, Val 1), (Val 0, Val 1)] stale_state)
   \<and> seg_params (outcome (train pixel_env one_step_config [(Val 0, Val 1), (Val 0, Val 1)]
         stale_state)) = [(''w'', Val (5 / 3))]"
proof -
  have i: "seg_params stale_state = [(''w'', Val 1)]"
    by (simp add: stale_state_def pixel_state_def)
  have n: "n_epoch one_step_config = Suc 0" by (simp add: one_step_config_def)
  from stale_both_examples obtain r where
    "train_epoch pixel_env one_step_config [(''w'', Val 1)] 0 [(Val 0, Val 1), (Val 0, Val 1)]
       stale_state = Inr r"
    "seg_params r = [(''w'', Val (5 / 3))]" by blast
  with i show ?thesis by (simp add: train_def n completed_def outcome_def)
qed

lemma stale_step_completed:
  "completed (guided_step pixel_env one_step_config [(''w'', Val 1)] (Val 1) 0
       (start_state pixel_env one_step_config stale_state))"
  by (simp add: completed_def step_defs start_defs toy_defs one_step_config_def stale_state_def)

lemma stale_step_params:
  "seg_params (outcome (guided_step pixel_env one_step_config [(''w'', Val 1)] (Val 1) 0
       (start_state pixel_env one_step_config stale_state))) = [(''w'', Val (5 / 3))]"
  by (simp add: outcome_def step_defs start_defs toy_defs one_step_config_def stale_state_def)

lemma dark_step_params:
  "seg_params (after_step pixel_env one_step_config (Val 1) 0 dark_state) = [(''w'', Val 1)]"
  by (simp add: after_step_def dark_state_def step_defs start_defs toy_defs one_step_config_def)

lemma dark_step_fails:
  "guided_step pixel_env one_step_config [(''w'', Val 1)] (Val 1) 0 dark_state =
     Inl (AssertionError ''w'', after_step pixel_env one_step_config (Val 1) 0 dark_state)"
proof -
  from dark_step_params have "update_checker pixel_env [(''w'', Val 1)]
      (seg_params (after_step pixel_env one_step_config (Val 1) 0 dark_state)) =
      Some (AssertionError ''w'')"
    by (simp add: pixel_env_def)
  then show ?thesis by (simp add: guided_step_cases)
qed



section \<open>The claims\<close>

subsection \<open>The next trajectory state\<close>

text \<open>
  C1. At every guided timestep \<open>j\<close>, from any state, the next \<open>x_t\<close> is
  \<open>(mean + gradient) + std * noise\<close>: \<open>(mean, std, noise)\<close> is the result of the single
  call of \<open>reverse_sample_typeII\<close> at the current \<open>x_t\<close> and \<open>j\<close>, and \<open>gradient\<close> is the
  gradient of \<open>- strength * loss\<close> taken at the clamped clean-image estimate, as a function
  of that estimate alone, under the parameters the optimiser has just produced. The
  gradient buffers of the network hold the gradient of the first loss only. This holds
  whether or not the update checker raises afterwards.
\<close>

theorem guided_step_next_x_t:
  "x_t (outcome (guided_step E c init y j st)) =
     (let x_0_t = clamp E (reverse_skip E (dpm_params st) (x_t st) j) 0 1;
          g1 = grad_params E (\<lambda>p. seg_loss E p x_0_t y) (seg_params st);
          p' = snd (optimizer_update E (opt_state st) (seg_params st) (Some g1));
          gradient = grad_input E (\<lambda>x. smul E (- strength c) (seg_loss E p' x y)) x_0_t;
          ((mean, std, noise), g') = reverse_sample_typeII E (dpm_params st) (x_t st) j (rng st)
      in tadd E (tadd E mean gradient) (tmul E std noise))
   \<and> filter is_reverse_sample (new_events st (outcome (guided_step E c init y j st))) =
       [EvReverseSample (x_t st) j]
   \<and> rng (outcome (guided_step E c init y j st)) =
       snd (reverse_sample_typeII E (dpm_params st) (x_t st) j (rng st))
   \<and> seg_grads (outcome (guided_step E c init y j st)) =
       Some (grad_params E
         (\<lambda>p. seg_loss E p (clamp E (reverse_skip E (dpm_params st) (x_t st) j) 0 1) y)
         (seg_params st))"
proof -
  let ?s = "after_step E c y j st"
  have p: "seg_params (segmentation_update E y j st) =
      snd (optimizer_update E (opt_state st) (seg_params st) (Some (step_grads E y j st)))"
    using segmentation_update_params [of E y j st] by (metis snd_conv)
  have "x_t ?s =
     (let x_0_t = clamp E (reverse_skip E (dpm_params st) (x_t st) j) 0 1;
          g1 = grad_params E (\<lambda>p. seg_loss E p x_0_t y) (seg_params st);
          p' = snd (optimizer_update E (opt_state st) (seg_params st) (Some g1));
          gradient = grad_input E (\<lambda>x. smul E (- strength c) (seg_loss E p' x y)) x_0_t;
          ((mean, std, noise), g') = reverse_sample_typeII E (dpm_params st) (x_t st) j (rng st)
      in tadd E (tadd E mean gradient) (tmul E std noise))"
    by (simp add: after_step_x_t p Let_def step_grads_def estimate_x0_def
        guidance_gradient_def split: prod.splits)
  moreover have "filter is_reverse_sample (new_events st ?s) = [EvReverseSample (x_t st) j]"
    by (simp add: new_events_after_step step_events_def)
  moreover have "rng ?s = snd (reverse_sample_typeII E (dpm_params st) (x_t st) j (rng st))"
    by (rule after_step_rng)
  moreover have "seg_grads ?s = Some (grad_params E
         (\<lambda>p. seg_loss E p (clamp E (reverse_skip E (dpm_params st) (x_t st) j) 0 1) y)
         (seg_params st))"
    by (simp add: after_step_grads step_grads_def estimate_x0_def)
  ultimately show ?thesis
    by (simp only: outcome_guided_step)
qed

subsection \<open>The terminal reverse step\<close>

text \<open>
  C2. For every input \<open>x\<close>, every denoiser, every schedule and every posterior,
  \<open>reverse_sample_typeII\<close> at timestep 0 returns the standard deviation 0, so that no
  entry of the noise changes the entry \<open>m\<close> of the shifted mean it is added to. With this
  sampler the guided step at timestep 0 leaves \<open>x_t = mean + gradient\<close>, cut to the number
  of samples drawn: the values of the samples do not enter it.
\<close>

theorem terminal_std_zero:
  "(let ((mean, std, noise), g') =
          reverse_sample_typeII_spec posterior_mean posterior_std betas denoiser x 0 g
    in std = 0 \<and> (\<forall>m e. m + std * e = m))
   \<and> (let E' = spec_sampler_env posterior_mean posterior_std betas den E;
          mean = posterior_mean betas 0 (x_t st) (den (dpm_params st) (x_t st) 0);
          gradient = guidance_gradient E' c (seg_params (segmentation_update E' y 0 st)) y
                       (estimate_x0 E' st 0)
      in x_t (outcome (guided_step E' c init y 0 st)) =
           take (min (length (x_t st)) (length (rng st))) (map2 (+) mean gradient))"
proof -
  let ?E = "spec_sampler_env posterior_mean posterior_std betas den E"
  have a: "tadd ?E = map2 (+)" "tmul ?E = map2 (*)"
    by (simp_all add: spec_sampler_env_def)
  have r: "fst (reverse_sample_typeII ?E (dpm_params st) (x_t st) 0 (rng st)) =
      (posterior_mean betas 0 (x_t st) (den (dpm_params st) (x_t st) 0),
       replicate (length (x_t st)) 0, take (length (x_t st)) (rng st))"
    by (simp add: spec_sampler_env_def reverse_sample_typeII_spec_def Let_def)
  have "x_t (after_step ?E c y 0 st) =
      take (min (length (x_t st)) (length (rng st)))
        (map2 (+) (posterior_mean betas 0 (x_t st) (den (dpm_params st) (x_t st) 0))
           (guidance_gradient ?E c (seg_params (segmentation_update ?E y 0 st)) y
              (estimate_x0 ?E st 0)))"
    by (simp add: after_step_x_t Let_def r a map2_mult_zeros map2_add_zeros min.commute)
  then show ?thesis
    by (simp add: outcome_guided_step Let_def reverse_sample_typeII_spec_def min.commute)
qed

subsection \<open>The order of the trajectory\<close>



subsection \<open>The update checker\<close>

text \<open>
  C4, as the script has it. Every guided step that completes leaves every parameter of
  the segmentation network not \<open>allclose\<close> to its entry in \<open>initial_state\<close>; the check runs
  once in every guided step, after the optimiser update and the update of \<open>x_t\<close>, so it
  holds after each of the steps of a loop that completes. \<open>initial_state\<close> is the
  snapshot taken once, from the parameters as loaded: a run that completes (with at least
  one epoch, one example and one timestep) ends with every parameter not \<open>allclose\<close> to the
  value it was loaded with. The value a parameter had when the current trajectory started
  is not compared.
\<close>

theorem update_checked_against_snapshot:
  "(guided_step E c init y j st = Inr st' \<longrightarrow>
      (\<forall>(n, p) \<in> set (seg_params st'). \<exists>p0. map_of init n = Some p0 \<and> \<not> allclose E p p0))
   \<and> (guided_loop E c init y js st = Inr st' \<longrightarrow>
      (\<forall>k < length js. \<forall>(n, p) \<in> set (seg_params (run_steps E c y (take (Suc k) js) st)).
          \<exists>p0. map_of init n = Some p0 \<and> \<not> allclose E p p0))
   \<and> count_event EvUpdateChecker (new_events st (outcome (guided_step E c init y j st))) = 1
   \<and> (train E c train_data st = Inr st' \<and> 0 < n_epoch c \<and> train_data \<noteq> [] \<and> 0 < T c \<longrightarrow>
      (\<forall>(n, p) \<in> set (seg_params st').
          \<exists>p0. map_of (seg_params st) n = Some p0 \<and> \<not> allclose E p p0))"
proof (intro conjI impI allI)
  assume "guided_step E c init y j st = Inr st'"
  from guided_step_Inr [OF this]
  show "\<forall>(n, p) \<in> set (seg_params st'). \<exists>p0. map_of init n = Some p0 \<and> \<not> allclose E p p0"
    by (simp add: update_checker_None)
next
  fix k
  assume "guided_loop E c init y js st = Inr st'" "k < length js"
  from guided_loop_checked [OF this]
  show "\<forall>(n, p) \<in> set (seg_params (run_steps E c y (take (Suc k) js) st)).
          \<exists>p0. map_of init n = Some p0 \<and> \<not> allclose E p p0"
    by (simp add: update_checker_None)
next
  show "count_event EvUpdateChecker (new_events st (outcome (guided_step E c init y j st))) = 1"
    by (simp add: outcome_guided_step new_events_after_step step_events_def)
next
  assume a: "train E c train_data st = Inr st' \<and> 0 < n_epoch c \<and> train_data \<noteq> [] \<and> 0 < T c"
  then have "train_epochs E c (seg_params st) train_data (n_epoch c) st = Inr st'"
    by (simp add: train_def)
  from train_epochs_checked [OF this] a
  show "\<forall>(n, p) \<in> set (seg_params st').
          \<exists>p0. map_of (seg_params st) n = Some p0 \<and> \<not> allclose E p p0"
    by (simp add: update_checker_None)
qed

text \<open>
  The one-pixel run of two examples with one timestep each: the step of the first example
  moves the weight from 1 to 5/3, which the check accepts.
\<close>

theorem update_checked_against_snapshot_witness:
  "completed (guided_step pixel_env one_step_config [(''w'', Val 1)] (Val 1) 0
       (start_state pixel_env one_step_config stale_state))
   \<and> completed (guided_loop pixel_env one_step_config [(''w'', Val 1)] (Val 1) [0]
       (start_state pixel_env one_step_config stale_state))
   \<and> completed (train pixel_env one_step_config [(Val 0, Val 1), (Val 0, Val 1)] stale_state)
   \<and> seg_params (outcome (guided_step pixel_env one_step_config [(''w'', Val 1)] (Val 1) 0
       (start_state pixel_env one_step_config stale_state))) = [(''w'', Val (5 / 3))]
   \<and> (\<exists>p0. map_of [(''w'', Val 1)] ''w'' = Some p0 \<and> \<not> allclose pixel_env (Val (5 / 3)) p0)"
proof -
  let ?s = "start_state pixel_env one_step_config stale_state"
  let ?r = "guided_step pixel_env one_step_config [(''w'', Val 1)] (Val 1) 0 ?s"
  let ?t = "train pixel_env one_step_config [(Val 0, Val 1), (Val 0, Val 1)] stale_state"
  note c = stale_step_completed
  note p = stale_step_params
  have r: "?r = Inr (outcome ?r)" by (rule completed_outcome [OF c])
  then have l: "guided_loop pixel_env one_step_config [(''w'', Val 1)] (Val 1) [0] ?s =
      Inr (outcome ?r)" by (simp split: sum.splits)
  have t: "?t = Inr (outcome ?t)" using stale_train_two by (simp add: completed_outcome)
  have h: "0 < n_epoch one_step_config" "0 < T one_step_config"
    by (simp_all add: one_step_config_def)
  have i: "seg_params stale_state = [(''w'', Val 1)]"
    by (simp add: stale_state_def pixel_state_def)
  from update_checked_against_snapshot [of pixel_env one_step_config "[(''w'', Val 1)]" "Val 1" 0
      ?s "outcome ?r" "[0]"]
    update_checked_against_snapshot [of pixel_env one_step_config "[(''w'', Val 1)]" "Val 1" 0
      stale_state "outcome ?t" "[0]" "[(Val 0, Val 1), (Val 0, Val 1)]"]
    r l p c t h i stale_train_two
  show ?thesis by (simp add: completed_def)
qed

text \<open>
  C4 as stated fails in the second trajectory of that run. The snapshot holds the weight
  1; the first example leaves 5/3; the estimate of the second example is black, its
  gradient is 0, and its guided step leaves the weight at 5/3, the value it had before
  the first update of this trajectory. The check compares with 1 and the run completes.
\<close>

theorem stale_in_second_trajectory:
  "seg_params stale_state = [(''w'', Val 1)]
   \<and> seg_params (outcome (train pixel_env one_step_config [(Val 0, Val 1)] stale_state)) =
       [(''w'', Val (5 / 3))]
   \<and> completed (train pixel_env one_step_config [(Val 0, Val 1), (Val 0, Val 1)] stale_state)
   \<and> seg_params (outcome (train pixel_env one_step_config [(Val 0, Val 1), (Val 0, Val 1)]
         stale_state)) = [(''w'', Val (5 / 3))]"
  using stale_train_one stale_train_two by (simp add: stale_state_def pixel_state_def)

subsection \<open>Where the image is clamped\<close>

text \<open>
  C5. In a training example that completes, \<open>clamp\<close> is called exactly \<open>T + 2\<close> times: once
  on the unconditional estimate with bounds [-1, 1], once in each guided step on the
  result of \<open>reverse_skip\<close> with bounds [0, 1], and once on the final \<open>x_t\<close> with bounds
  [-1, 1]. The two estimates in the plot are these clamped values. The guided trajectory
  starts from the noise as drawn. In its \<open>k\<close>-th step the segmentation network is run on
  the estimate clamped to [0, 1]: the gradient left in its buffers, its new parameters,
  its prediction and the guidance gradient are all computed at
  \<open>clamp (reverse_skip x_t j) 0 1\<close>; and the next \<open>x_t\<close> is the sum
  \<open>(mean + gradient) + std * noise\<close> itself, not a clamped value. The \<open>x_t\<close> the example
  ends with is the \<open>x_t\<close> the last guided step left.
\<close>

theorem clamp_checkpoints:
  "train_example E c init step xy st = Inr st' \<Longrightarrow>
     (let y = squeeze_long E (snd xy); js = rev [0 ..< T c]; s1 = start_state E c st
      in clamp_calls (new_events st st') =
           (unconditional_x0 E c st, - 1, 1) #
           map (\<lambda>k. (reverse_skip E (dpm_params st) (x_t (run_steps E c y (take k js) s1)) (js ! k),
                     0, 1)) [0 ..< T c] @
           [(x_t st', - 1, 1)]
         \<and> x_t st' = x_t (run_steps E c y js s1)
         \<and> (\<exists>py. last (saved_images st') =
              (step,
               clamp E (fst (reverse_iterate E (dpm_params st)
                  (fst (randn E [batch_size c, 1, 256, 256] (rng st))) (int (T c) - 1)
                  (snd (randn E [batch_size c, 1, 256, 256] (rng st))))) (- 1) 1,
               clamp E (x_t st') (- 1) 1, py, y))
         \<and> x_t s1 = fst (randn E [batch_size c, 1, 256, 256] (rng st))
         \<and> (\<forall>k < T c.
              (let s = run_steps E c y (take k js) s1;
                   s' = run_steps E c y (take (Suc k) js) s1;
                   j = js ! k;
                   x_0_t = clamp E (reverse_skip E (dpm_params st) (x_t s) j) 0 1;
                   g1 = grad_params E (\<lambda>p. seg_loss E p x_0_t y) (seg_params s);
                   p' = snd (optimizer_update E (opt_state s) (seg_params s) (Some g1));
                   gradient = grad_input E (\<lambda>x. smul E (- strength c) (seg_loss E p' x y)) x_0_t;
                   ((mean, std, noise), g') =
                      reverse_sample_typeII E (dpm_params st) (x_t s) j (rng s)
               in seg_grads s' = Some g1
                  \<and> seg_params s' = p'
                  \<and> pred_y s' = Some (argmax E (softmax E (seg_model E p' x_0_t)))
                  \<and> x_t s' = tadd E (tadd E mean gradient) (tmul E std noise))))
     \<and> map snd (clamp_calls (new_events st st')) = (- 1, 1) # replicate (T c) (0, 1) @ [(- 1, 1)]"
proof -
  assume ok: "train_example E c init step xy st = Inr st'"
  note tr = train_example_Inr_trace [OF ok]
  let ?y = "squeeze_long E (snd xy)"
  let ?js = "rev [0 ..< T c]"
  let ?s1 = "start_state E c st"
  have ne: "new_events st st' = pass_events E c st @ loop_events E c ?y ?js ?s1 @
      [EvClamp (x_t st') (- 1) 1]"
    by (rule new_events_append) (rule tr(1))
  have a: "clamp_calls (new_events st st') =
           (unconditional_x0 E c st, - 1, 1) #
           map (\<lambda>k. (reverse_skip E (dpm_params st) (x_t (run_steps E c ?y (take k ?js) ?s1)) (?js ! k),
                     0, 1)) [0 ..< T c] @
           [(x_t st', - 1, 1)]"
    by (simp add: ne clamp_calls_append clamp_calls_loop pass_events_def start_state_fields)
  have b: "map snd (clamp_calls (new_events st st')) =
      (- 1, 1) # replicate (T c) (0, 1) @ [(- 1, 1)]"
    by (simp add: ne clamp_calls_append clamp_bounds_loop pass_events_def)
  from tr(5) have u: "\<exists>py. last (saved_images st') =
              (step,
               clamp E (fst (reverse_iterate E (dpm_params st)
                  (fst (randn E [batch_size c, 1, 256, 256] (rng st))) (int (T c) - 1)
                  (snd (randn E [batch_size c, 1, 256, 256] (rng st))))) (- 1) 1,
               clamp E (x_t st') (- 1) 1, py, ?y)"
    by (simp add: unconditional_x0_def x_T_def)
  have n: "x_t ?s1 = fst (randn E [batch_size c, 1, 256, 256] (rng st))"
    by (simp add: start_state_fields x_T_def)
  have e: "\<forall>k < T c.
              (let s = run_steps E c ?y (take k ?js) ?s1;
                   s' = run_steps E c ?y (take (Suc k) ?js) ?s1;
                   j = ?js ! k;
                   x_0_t = clamp E (reverse_skip E (dpm_params st) (x_t s) j) 0 1;
                   g1 = grad_params E (\<lambda>p. seg_loss E p x_0_t ?y) (seg_params s);
                   p' = snd (optimizer_update E (opt_state s) (seg_params s) (Some g1));
                   gradient = grad_input E (\<lambda>x. smul E (- strength c) (seg_loss E p' x ?y)) x_0_t;
                   ((mean, std, noise), g') =
                      reverse_sample_typeII E (dpm_params st) (x_t s) j (rng s)
               in seg_grads s' = Some g1
                  \<and> seg_params s' = p'
                  \<and> pred_y s' = Some (argmax E (softmax E (seg_model E p' x_0_t)))
                  \<and> x_t s' = tadd E (tadd E mean gradient) (tmul E std noise))"
  proof (intro allI impI)
    fix k assume k: "k < T c"
    let ?s = "run_steps E c ?y (take k ?js) ?s1"
    have d: "dpm_params ?s = dpm_params st"
      by (simp add: run_steps_frame start_state_fields)
    from k have r: "run_steps E c ?y (take (Suc k) ?js) ?s1 = after_step E c ?y (?js ! k) ?s"
      by (intro run_steps_Suc) simp
    from after_step_explicit [of E ?s "?js ! k" ?y c]
    show "(let s = run_steps E c ?y (take k ?js) ?s1;
                   s' = run_steps E c ?y (take (Suc k) ?js) ?s1;
                   j = ?js ! k;
                   x_0_t = clamp E (reverse_skip E (dpm_params st) (x_t s) j) 0 1;
                   g1 = grad_params E (\<lambda>p. seg_loss E p x_0_t ?y) (seg_params s);
                   p' = snd (optimizer_update E (opt_state s) (seg_params s) (Some g1));
                   gradient = grad_input E (\<lambda>x. smul E (- strength c) (seg_loss E p' x ?y)) x_0_t;
                   ((mean, std, noise), g') =
                      reverse_sample_typeII E (dpm_params st) (x_t s) j (rng s)
               in seg_grads s' = Some g1
                  \<and> seg_params s' = p'
                  \<and> pred_y s' = Some (argmax E (softmax E (seg_model E p' x_0_t)))
                  \<and> x_t s' = tadd E (tadd E mean gradient) (tmul E std noise))"
      unfolding Let_def r d .
  qed
  from a tr(2) u n e b show ?thesis
    unfolding Let_def by - (intro conjI; assumption)
qed


text \<open>
  The one-pixel example with two guided steps: four calls of \<open>clamp\<close>. Its first guided
  step starts from the noise 1, runs the network on the estimate 1 and leaves the weight
  5/3, the prediction 5/3 and an \<open>x_t\<close> of 2491/693, outside of both intervals; the second
  step runs the network on that \<open>x_t\<close> clamped to 1.
\<close>

theorem clamp_checkpoints_witness:
  "completed demo_run
   \<and> map snd (clamp_calls (new_events demo_state (outcome demo_run))) =
       [(- 1, 1), (0, 1), (0, 1), (- 1, 1)]
   \<and> x_t (start_state pixel_env demo_config demo_state) = Val 1
   \<and> seg_params (run_steps pixel_env demo_config (Val 1) [1]
            (start_state pixel_env demo_config demo_state)) = [(''w'', Val (5 / 3))]
   \<and> pred_y (run_steps pixel_env demo_config (Val 1) [1]
            (start_state pixel_env demo_config demo_state)) = Some (Val (5 / 3))
   \<and> x_t (run_steps pixel_env demo_config (Val 1) [1]
            (start_state pixel_env demo_config demo_state)) = Val (2491 / 693)
   \<and> clamp pixel_env (reverse_skip pixel_env (dpm_params demo_state) (Val (2491 / 693)) 0) 0 1 =
       Val 1"
proof -
  let ?s1 = "start_state pixel_env demo_config demo_state"
  have t: "T demo_config = Suc (Suc 0)" "strength demo_config = 2"
    by (simp_all add: demo_config_def)
  have s: "x_t ?s1 = Val 1" "seg_params ?s1 = [(''w'', Val 1)]" "opt_state ?s1 = 0"
    "rng ?s1 = [6, 0]" "dpm_params demo_state = [(''w'', Val 1)]"
    by (simp_all add: start_defs toy_defs demo_config_def demo_state_def)
  have k: "0 < T demo_config" by (simp add: t)
  note th = clamp_checkpoints [OF demo_run_Inr, unfolded Let_def]
  from th have b: "map snd (clamp_calls (new_events demo_state (outcome demo_run))) =
      (- 1, 1) # replicate (T demo_config) (0, 1) @ [(- 1, 1)]"
    by (rule conjunct2)
  note e = th [THEN conjunct1, THEN conjunct2, THEN conjunct2, THEN conjunct2, THEN conjunct2,
      rule_format, OF k]
  from e have f: "seg_params (run_steps pixel_env demo_config (Val 1) [Suc 0] ?s1) =
        [(''w'', Val (5 / 3))]
      \<and> pred_y (run_steps pixel_env demo_config (Val 1) [Suc 0] ?s1) = Some (Val (5 / 3))
      \<and> x_t (run_steps pixel_env demo_config (Val 1) [Suc 0] ?s1) = Val (2491 / 693)"
    by (simp add: t s pixel_fields seg_loss_def weight_def draw_def shift_def central_def
        descend_def del: run_steps.simps(2))
  have c: "clamp pixel_env (reverse_skip pixel_env (dpm_params demo_state) (Val (2491 / 693)) 0) 0 1 =
       Val 1"
    by (simp add: s pixel_fields weight_def)
  from b f c s(1) demo_completed show ?thesis by (simp add: t del: run_steps.simps(2))
qed

subsection \<open>Failures of the guided step\<close>

text \<open>
  C6, as the script has it. The guided step makes no check of the shape of the labels and
  no check that the loss or the gradient is finite. The only exception it raises itself
  comes from the update checker (the \<^verbatim>\<open>assert\<close> on a parameter that is \<open>allclose\<close> to its
  snapshot, or the lookup of a name the snapshot lacks), and it is raised after the
  parameters and \<open>x_t\<close> have been advanced: both results carry the same advanced state, and
  the step completes exactly when the updated parameters pass the checker.
\<close>

theorem guided_step_failure:
  "(guided_step E c init y j st = Inl (e, st') \<longrightarrow>
      st' = after_step E c y j st
      \<and> (\<exists>(n, p) \<in> set (seg_params st').
            (e = KeyError n \<and> map_of init n = None) \<or>
            (e = AssertionError n \<and> (\<exists>p0. map_of init n = Some p0 \<and> allclose E p p0))))
   \<and> (guided_step E c init y j st = Inr st' \<longrightarrow> st' = after_step E c y j st)
   \<and> completed (guided_step E c init y j st) =
       (update_checker E init (seg_params (after_step E c y j st)) = None)
   \<and> outcome (guided_step E c init y j st) = after_step E c y j st"
proof (intro conjI impI)
  assume a: "guided_step E c init y j st = Inl (e, st')"
  from guided_step_Inl [OF a] show "st' = after_step E c y j st" by simp
  from guided_step_Inl [OF a] have "update_checker E init (seg_params st') = Some e" by blast
  then show "\<exists>(n, p) \<in> set (seg_params st').
            (e = KeyError n \<and> map_of init n = None) \<or>
            (e = AssertionError n \<and> (\<exists>p0. map_of init n = Some p0 \<and> allclose E p p0))"
    by (rule update_checker_Some)
next
  assume "guided_step E c init y j st = Inr st'"
  from guided_step_Inr [OF this] show "st' = after_step E c y j st" by simp
next
  show "completed (guided_step E c init y j st) =
       (update_checker E init (seg_params (after_step E c y j st)) = None)"
    by (simp add: guided_step_cases completed_def split: option.splits)
next
  show "outcome (guided_step E c init y j st) = after_step E c y j st"
    by (rule outcome_guided_step)
qed

text \<open>
  One-pixel steps of both kinds: a black estimate with label 1 gives the gradient 0, the
  weight stays 1 and the \<^verbatim>\<open>assert\<close> raises; the first step of the two-example run
  completes.
\<close>

theorem guided_step_failure_witness:
  "guided_step pixel_env one_step_config [(''w'', Val 1)] (Val 1) 0 dark_state =
     Inl (AssertionError ''w'', after_step pixel_env one_step_config (Val 1) 0 dark_state)
   \<and> seg_params (after_step pixel_env one_step_config (Val 1) 0 dark_state) = [(''w'', Val 1)]
   \<and> completed (guided_step pixel_env one_step_config [(''w'', Val 1)] (Val 1) 0
       (start_state pixel_env one_step_config stale_state))"
proof -
  let ?q = "guided_step pixel_env one_step_config [(''w'', Val 1)] (Val 1) 0
       (start_state pixel_env one_step_config stale_state)"
  note c = stale_step_completed
  then have q: "?q = Inr (outcome ?q)" by (rule completed_outcome)
  from guided_step_failure [of pixel_env one_step_config "[(''w'', Val 1)]" "Val 1" 0 dark_state
      "AssertionError ''w''" "after_step pixel_env one_step_config (Val 1) 0 dark_state"]
    guided_step_failure [of pixel_env one_step_config "[(''w'', Val 1)]" "Val 1" 0
      "start_state pixel_env one_step_config stale_state" _ "outcome ?q"]
    dark_step_fails dark_step_params c q
  show ?thesis by simp
qed

text \<open>
  C6 as stated fails on a black estimate with an empty label map. The first guided step
  of that example starts from the noise -1 and the weight 1; the estimate is clamped to
  0, the prediction and the label are both 0 and the Dice term is 0/0. The loss is
  not-a-number, and the step completes: it has stored not-a-number in the weight and in
  \<open>x_t\<close>, and the check passes because not-a-number is \<open>allclose\<close> to nothing.
\<close>

theorem nonfinite_loss_not_detected:
  "seg_loss pixel_env (seg_params dark_state) (estimate_x0 pixel_env dark_state 0) (Val 0) = NaN
   \<and> completed (guided_step pixel_env one_step_config [(''w'', Val 1)] (Val 0) 0 dark_state)
   \<and> seg_params (outcome (guided_step pixel_env one_step_config [(''w'', Val 1)] (Val 0) 0
        dark_state)) = [(''w'', NaN)]
   \<and> x_t (outcome (guided_step pixel_env one_step_config [(''w'', Val 1)] (Val 0) 0 dark_state)) = NaN
   \<and> x_t dark_state = Val (- 1) \<and> seg_params dark_state = [(''w'', Val 1)]"
  by (simp add: completed_def outcome_def dark_state_def step_defs start_defs toy_defs
      one_step_config_def)

subsection \<open>The linear schedule\<close>

text \<open>
  C7. For \<open>0 < beta_start < beta_end < 1\<close> and any number \<open>n\<close> of timesteps, the linear
  schedule has \<open>n\<close> entries, each in (0, 1), in non-decreasing order; \<open>alpha_bar\<close> is
  strictly decreasing, starts at \<open>1 - beta[0]\<close> and is positive at \<open>n - 1\<close>. Over the
  real numbers.
\<close>

theorem linear_schedule_invariant:
  assumes "0 < beta_start" "beta_start < beta_end" "beta_end < 1"
    and "get_beta_schedule ''linear'' beta_start beta_end n = Inr betas"
  shows "length betas = n
    \<and> (\<forall>t < n. 0 < betas ! t \<and> betas ! t < 1)
    \<and> (\<forall>s t. s \<le> t \<and> t < n \<longrightarrow> betas ! s \<le> betas ! t)
    \<and> (\<forall>s t. s < t \<and> t < n \<longrightarrow> alpha_bar betas ! t < alpha_bar betas ! s)
    \<and> (0 < n \<longrightarrow> alpha_bar betas ! 0 = 1 - betas ! 0 \<and> 0 < alpha_bar betas ! (n - 1))"
proof -
  from assms(4) have b: "betas = linspace beta_start beta_end n"
    by (simp add: get_beta_schedule_def)
  have len: "length betas = n" by (simp add: b linspace_def)
  have rng: "\<forall>t < n. 0 < betas ! t \<and> betas ! t < 1"
  proof (intro allI impI)
    fix t assume "t < n"
    from linspace_bounds [OF assms(2) this] assms(1,3)
    show "0 < betas ! t \<and> betas ! t < 1" by (simp add: b)
  qed
  have mono: "\<forall>s t. s \<le> t \<and> t < n \<longrightarrow> betas ! s \<le> betas ! t"
    using linspace_mono [OF assms(2)] by (simp add: b)
  from rng len have rng': "\<forall>t < length betas. 0 < betas ! t \<and> betas ! t < 1" by simp
  have dec: "\<forall>s t. s < t \<and> t < n \<longrightarrow> alpha_bar betas ! t < alpha_bar betas ! s"
    using alpha_bar_decreasing [OF rng'] len by simp
  have ends: "0 < n \<longrightarrow> alpha_bar betas ! 0 = 1 - betas ! 0 \<and> 0 < alpha_bar betas ! (n - 1)"
    using alpha_bar_0 [of betas] alpha_bar_pos [OF rng', of "n - 1"] len by simp
  from len rng mono dec ends show ?thesis by blast
qed

text \<open>The script's \<^verbatim>\<open>beta_start\<close> and \<^verbatim>\<open>beta_end\<close> with three timesteps.\<close>

theorem linear_schedule_invariant_witness:
  "(0 :: real) < 1 / 10000 \<and> (1 :: real) / 10000 < 2 / 100 \<and> (2 :: real) / 100 < 1
   \<and> get_beta_schedule ''linear'' (1 / 10000) (2 / 100) 3 = Inr [1 / 10000, 201 / 20000, 2 / 100]
   \<and> alpha_bar [1 / 10000, 201 / 20000, 2 / 100] ! 2 < alpha_bar [1 / 10000, 201 / 20000, 2 / 100] ! 1
   \<and> 0 < alpha_bar [1 / 10000, 201 / 20000, 2 / 100] ! 2"
proof -
  have g: "get_beta_schedule ''linear'' (1 / 10000) (2 / 100) 3 = Inr [1 / 10000, 201 / 20000, 2 / 100]"
    by (simp add: get_beta_schedule_def linspace_def upt_rec)
  have h: "(0 :: real) < 1 / 10000" "(1 :: real) / 10000 < 2 / 100" "(2 :: real) / 100 < 1"
    by simp_all
  from linear_schedule_invariant [OF h g] g h show ?thesis by simp
qed

subsection \<open>The frozen denoiser\<close>

text \<open>
  C8. The parameters of the diffusion model after a whole run, after an epoch, after a
  training example and after a guided step are the parameters before it, whether it
  completes or an exception ends it. The optimiser is given the parameters of the
  segmentation network only; the sampler reads the diffusion model and returns tensors.
\<close>

theorem denoiser_frozen:
  "dpm_params (outcome (train E c train_data st)) = dpm_params st
   \<and> dpm_params (outcome (train_epoch E c init step train_data st)) = dpm_params st
   \<and> dpm_params (outcome (train_example E c init step xy st)) = dpm_params st
   \<and> dpm_params (outcome (guided_step E c init y j st)) = dpm_params st"
  by (simp add: train_def train_epochs_dpm train_epoch_dpm train_example_dpm
      outcome_guided_step after_step_frame)

subsection \<open>The shared initial noise\<close>



subsection \<open>The single optimiser update\<close>

text \<open>
  C10. A guided step starts by emptying the gradient buffers and calls the optimiser
  once: the new optimiser state and parameters are the optimiser's result on the old
  ones and the gradient of this timestep's loss alone, whatever the buffers held before
  the step. The computation of the guidance gradient and the update of \<open>x_t\<close> that follow
  leave the parameters, the buffers and the optimiser state as they are, so the buffers
  still hold that gradient when the step ends.
\<close>

theorem single_optimizer_update:
  "(let s' = outcome (guided_step E c init y j st);
        x_0_t = clamp E (reverse_skip E (dpm_params st) (x_t st) j) 0 1;
        g = grad_params E (\<lambda>p. seg_loss E p x_0_t y) (seg_params st)
    in (opt_state s', seg_params s') =
         optimizer_update E (opt_state st) (seg_params st) (Some g)
       \<and> seg_grads s' = Some g
       \<and> count_event EvOptimizerStep (new_events st s') = 1
       \<and> count_event EvZeroGrad (take 1 (new_events st s')) = 1)
   \<and> guided_step E c init y j (st\<lparr>seg_grads := b\<rparr>) = guided_step E c init y j st
   \<and> seg_params (trajectory_update E c y j x0 s) = seg_params s
   \<and> seg_grads (trajectory_update E c y j x0 s) = seg_grads s
   \<and> opt_state (trajectory_update E c y j x0 s) = opt_state s"
proof -
  let ?s = "after_step E c y j st"
  have "(opt_state ?s, seg_params ?s) =
      optimizer_update E (opt_state st) (seg_params st) (Some (step_grads E y j st))"
    by (rule after_step_params)
  moreover have "seg_grads ?s = Some (step_grads E y j st)"
    by (rule after_step_grads)
  moreover have "count_event EvOptimizerStep (new_events st ?s) = 1"
    "count_event EvZeroGrad (take 1 (new_events st ?s)) = 1"
    by (simp_all add: new_events_after_step step_events_def)
  moreover have "guided_step E c init y j (st\<lparr>seg_grads := b\<rparr>) = guided_step E c init y j st"
    by (simp only: guided_step_cases after_step_ignores_grads)
  ultimately show ?thesis
    by (simp add: outcome_guided_step Let_def step_grads_def estimate_x0_def
        trajectory_update_frame)
qed

end
